theory Spec2Isabelle
  imports Complex_Main
begin

section \<open>Data model of the popover-family components\<close>

text \<open>
  The development embeds the positioning and open/close logic of
  \<^verbatim>\<open>Dropdown.tsx\<close>, \<^verbatim>\<open>Menu.tsx\<close>, \<^verbatim>\<open>Tooltip.tsx\<close> and \<^verbatim>\<open>DatePicker.tsx\<close>.
  Pixel quantities are JavaScript numbers; they are modelled as reals, so the rounding of
  IEEE doubles is outside the model. React state (\<^verbatim>\<open>useState\<close>) is a record that every
  handler takes and returns; calls of the optional \<^verbatim>\<open>onOpenChange\<close> prop are returned as a
  list of the arguments it was called with.
\<close>

datatype Side = SideTop | SideBottom | SideLeft | SideRight

datatype Align = AlignStart | AlignCenter | AlignEnd

datatype error = TypeError

text \<open>
  What \<^verbatim>\<open>getBoundingClientRect()\<close> returns: the six fields the components read.
\<close>

record DOMRect =
  rect_top :: real
  rect_left :: real
  rect_bottom :: real
  rect_right :: real
  rect_width :: real
  rect_height :: real

text \<open>
  A rectangle given by its origin and size, with the derived edges of the DOM's
  \<^verbatim>\<open>DOMRectReadOnly\<close> (\<^verbatim>\<open>top = min(y, y + height)\<close>, \<^verbatim>\<open>right = max(x, x + width)\<close>, ...).
\<close>

definition domRect :: "real \<Rightarrow> real \<Rightarrow> real \<Rightarrow> real \<Rightarrow> DOMRect" where
  "domRect x y w h =
     \<lparr>rect_top = min y (y + h), rect_left = min x (x + w),
      rect_bottom = max y (y + h), rect_right = max x (x + w),
      rect_width = w, rect_height = h\<rparr>"

text \<open>\<^verbatim>\<open>{ top: number; left: number }\<close>, the type of the stored position.\<close>

record Position =
  pos_top :: real
  pos_left :: real

text \<open>
  What a positioning pass reads from the host page: the two element refs (\<open>None\<close> is a
  \<^verbatim>\<open>null\<close> ref, \<open>Some r\<close> an attached element whose bounding rectangle is \<open>r\<close>) and the
  scroll offsets of \<^verbatim>\<open>window\<close> and \<^verbatim>\<open>document.documentElement\<close>.
\<close>

record Dom =
  triggerRef :: "DOMRect option"
  contentRef :: "DOMRect option"
  pageYOffset :: real
  pageXOffset :: real
  docScrollTop :: real
  docScrollLeft :: real

text \<open>JavaScript's \<^verbatim>\<open>a || b\<close> on numbers: \<^verbatim>\<open>0\<close> is falsy.\<close>

definition js_or :: "real \<Rightarrow> real \<Rightarrow> real" where
  "js_or a b = (if a = 0 then b else a)"

text \<open>
  \<^verbatim>\<open>window.pageYOffset || document.documentElement.scrollTop\<close> and its horizontal twin.
\<close>

definition scrollTop :: "Dom \<Rightarrow> real" where
  "scrollTop d = js_or (pageYOffset d) (docScrollTop d)"

definition scrollLeft :: "Dom \<Rightarrow> real" where
  "scrollLeft d = js_or (pageXOffset d) (docScrollLeft d)"

text \<open>Calling a method on a \<^verbatim>\<open>null\<close> ref throws a \<^verbatim>\<open>TypeError\<close>.\<close>

definition getBoundingClientRect :: "DOMRect option \<Rightarrow> error + DOMRect" where
  "getBoundingClientRect el = (case el of None \<Rightarrow> Inl TypeError | Some r \<Rightarrow> Inr r)"

subsection \<open>Dropdown\<close>

text \<open>
  The props of \<^verbatim>\<open>Dropdown\<close> that its logic reads (\<^verbatim>\<open>MenuProps\<close> has the same fields).
  \<open>controlledOpen\<close> is the \<^verbatim>\<open>open\<close> prop (\<open>None\<close>: \<^verbatim>\<open>undefined\<close>); \<open>onOpenChange\<close> says
  whether the callback was supplied.
\<close>

record DropdownProps =
  controlledOpen :: "bool option"
  onOpenChange :: bool
  placement :: Side
  align :: Align
  offset :: real
  closeOnClick :: bool
  closeOnEscape :: bool
  closeOnBlur :: bool

record DropdownState =
  isOpen :: bool
  position :: Position

text \<open>\<^verbatim>\<open>useState(false)\<close> and \<^verbatim>\<open>useState({ top: 0, left: 0 })\<close>.\<close>

definition Dropdown_init :: DropdownState where
  "Dropdown_init = \<lparr>isOpen = False, position = \<lparr>pos_top = 0, pos_left = 0\<rparr>\<rparr>"

text \<open>The default values of the destructured props, uncontrolled and without callback.\<close>

definition Dropdown_defaults :: DropdownProps where
  "Dropdown_defaults =
     \<lparr>controlledOpen = None, onOpenChange = False, placement = SideBottom,
      align = AlignStart, offset = 8, closeOnClick = True, closeOnEscape = True,
      closeOnBlur = True\<rparr>"

definition isControlled :: "DropdownProps \<Rightarrow> bool" where
  "isControlled p = (controlledOpen p \<noteq> None)"

text \<open>\<^verbatim>\<open>const open = isControlled ? controlledOpen : isOpen\<close>\<close>

definition Dropdown_open :: "DropdownProps \<Rightarrow> DropdownState \<Rightarrow> bool" where
  "Dropdown_open p s = (case controlledOpen p of Some b \<Rightarrow> b | None \<Rightarrow> isOpen s)"

text \<open>
  \<^verbatim>\<open>updatePosition\<close> of \<^verbatim>\<open>Dropdown.tsx\<close> (lines 92-145). The two \<^verbatim>\<open>switch\<close> statements
  assign \<^verbatim>\<open>top\<close> and \<^verbatim>\<open>left\<close> in turn, starting from \<^verbatim>\<open>0\<close>.
\<close>

definition Dropdown_updatePosition ::
  "DropdownProps \<Rightarrow> Dom \<Rightarrow> DropdownState \<Rightarrow> error + DropdownState" where
  "Dropdown_updatePosition p d s =
     (if triggerRef d = None \<or> contentRef d = None then Inr s
      else
        case getBoundingClientRect (triggerRef d) of
          Inl e \<Rightarrow> Inl e
        | Inr triggerRect \<Rightarrow>
        (case getBoundingClientRect (contentRef d) of
          Inl e \<Rightarrow> Inl e
        | Inr contentRect \<Rightarrow>
        (let scrollTop = scrollTop d;
            scrollLeft = scrollLeft d;
            top0 = (0::real);
            left0 = (0::real);
            (top1, left1) =
              (case placement p of
                 SideBottom \<Rightarrow> (rect_bottom triggerRect + scrollTop + offset p, left0)
               | SideTop \<Rightarrow>
                   (rect_top triggerRect + scrollTop - rect_height contentRect - offset p, left0)
               | SideLeft \<Rightarrow>
                   (rect_top triggerRect + scrollTop,
                    rect_left triggerRect + scrollLeft - rect_width contentRect - offset p)
               | SideRight \<Rightarrow>
                   (rect_top triggerRect + scrollTop,
                    rect_right triggerRect + scrollLeft + offset p));
            (top2, left2) =
              (case align p of
                 AlignStart \<Rightarrow>
                   if placement p = SideLeft \<or> placement p = SideRight
                   then (rect_top triggerRect + scrollTop, left1)
                   else (top1, rect_left triggerRect + scrollLeft)
               | AlignCenter \<Rightarrow>
                   if placement p = SideLeft \<or> placement p = SideRight
                   then (rect_top triggerRect + scrollTop + rect_height triggerRect / 2
                           - rect_height contentRect / 2, left1)
                   else (top1, rect_left triggerRect + scrollLeft + rect_width triggerRect / 2
                           - rect_width contentRect / 2)
               | AlignEnd \<Rightarrow>
                   if placement p = SideLeft \<or> placement p = SideRight
                   then (rect_bottom triggerRect + scrollTop - rect_height contentRect, left1)
                   else (top1, rect_right triggerRect + scrollLeft - rect_width contentRect))
        in Inr (s\<lparr>position := \<lparr>pos_top = top2, pos_left = left2\<rparr>\<rparr>))))"

subsection \<open>Tooltip\<close>

datatype Trigger = Hover | Click | Focus

text \<open>
  The props of \<^verbatim>\<open>Tooltip\<close> that its logic reads. \<open>delay\<close> is in milliseconds; the
  source only compares it with \<^verbatim>\<open>0\<close> and hands it to \<^verbatim>\<open>setTimeout\<close>.
\<close>

record TooltipProps =
  content :: string
  positionProp :: Side
  tt_align :: Align
  tt_offset :: real
  delay :: int
  disabled :: bool
  trigger :: Trigger
  maxWidth :: real

text \<open>
  The state of a mounted tooltip: the two \<^verbatim>\<open>useState\<close> cells, \<^verbatim>\<open>timeoutRef.current\<close>, and
  the part of the host's timer queue that belongs to this tooltip. A pending timer is a
  pair of its handle and the time at which it is due; every timer this component starts
  has the callback \<^verbatim>\<open>() => setIsVisible(true)\<close>. Timer handles are positive integers, so
  the test \<^verbatim>\<open>if (timeoutRef.current)\<close> is a test for non-\<^verbatim>\<open>null\<close>.
\<close>

record TooltipState =
  isVisible :: bool
  tooltipPos :: Position
  timeoutRef :: "nat option"
  timers :: "(nat \<times> nat) list"
  clock :: nat
  nextTimer :: nat

definition Tooltip_init :: TooltipState where
  "Tooltip_init =
     \<lparr>isVisible = False, tooltipPos = \<lparr>pos_top = 0, pos_left = 0\<rparr>, timeoutRef = None,
      timers = [], clock = 0, nextTimer = 0\<rparr>"

text \<open>The default values of the destructured props, for a tooltip with text \<open>c\<close>.\<close>

definition Tooltip_defaults :: "string \<Rightarrow> TooltipProps" where
  "Tooltip_defaults c =
     \<lparr>content = c, positionProp = SideTop, tt_align = AlignCenter, tt_offset = 8, delay = 200,
      disabled = False, trigger = Hover, maxWidth = 200\<rparr>"

text \<open>
  \<^verbatim>\<open>updatePosition\<close> of \<^verbatim>\<open>Tooltip.tsx\<close> (lines 90-160); here \<open>contentRef\<close> of the page
  stands for \<^verbatim>\<open>tooltipRef\<close>. The first \<^verbatim>\<open>switch\<close> sets both coordinates, the \<^verbatim>\<open>start\<close>
  case of the second changes nothing.
\<close>

definition Tooltip_updatePosition ::
  "TooltipProps \<Rightarrow> Dom \<Rightarrow> TooltipState \<Rightarrow> error + TooltipState" where
  "Tooltip_updatePosition p d s =
     (if triggerRef d = None \<or> contentRef d = None then Inr s
      else
        case getBoundingClientRect (triggerRef d) of
          Inl e \<Rightarrow> Inl e
        | Inr triggerRect \<Rightarrow>
        (case getBoundingClientRect (contentRef d) of
          Inl e \<Rightarrow> Inl e
        | Inr tooltipRect \<Rightarrow>
        (let scrollTop = scrollTop d;
            scrollLeft = scrollLeft d;
            (top1, left1) =
              (case positionProp p of
                 SideTop \<Rightarrow>
                   (rect_top triggerRect + scrollTop - rect_height tooltipRect - tt_offset p,
                    rect_left triggerRect + scrollLeft)
               | SideBottom \<Rightarrow>
                   (rect_bottom triggerRect + scrollTop + tt_offset p,
                    rect_left triggerRect + scrollLeft)
               | SideLeft \<Rightarrow>
                   (rect_top triggerRect + scrollTop,
                    rect_left triggerRect + scrollLeft - rect_width tooltipRect - tt_offset p)
               | SideRight \<Rightarrow>
                   (rect_top triggerRect + scrollTop,
                    rect_right triggerRect + scrollLeft + tt_offset p));
            (top2, left2) =
              (case tt_align p of
                 AlignStart \<Rightarrow> (top1, left1)
               | AlignCenter \<Rightarrow>
                   if positionProp p = SideLeft \<or> positionProp p = SideRight
                   then (rect_top triggerRect + scrollTop + rect_height triggerRect / 2
                           - rect_height tooltipRect / 2, left1)
                   else (top1, rect_left triggerRect + scrollLeft + rect_width triggerRect / 2
                           - rect_width tooltipRect / 2)
               | AlignEnd \<Rightarrow>
                   if positionProp p = SideLeft \<or> positionProp p = SideRight
                   then (rect_bottom triggerRect + scrollTop - rect_height tooltipRect, left1)
                   else (top1, rect_right triggerRect + scrollLeft - rect_width tooltipRect))
        in Inr (s\<lparr>tooltipPos := \<lparr>pos_top = top2, pos_left = left2\<rparr>\<rparr>))))"


section \<open>Open/close logic\<close>

text \<open>
  Where the target of a DOM event lies, relative to one mounted component: inside the
  trigger element, inside the floating element, elsewhere inside the component's root
  element, or outside the root element.
\<close>

datatype Node = InTrigger | InContent | InRoot | Outside

text \<open>
  The pointer and focus events that reach the elements of a component. \<open>BlurEv r\<close> is a
  blur of an element inside the component's root whose \<^verbatim>\<open>relatedTarget\<close> is \<open>r\<close> (\<open>None\<close>:
  \<^verbatim>\<open>null\<close>). A \<^verbatim>\<open>keydown\<close> that reaches the document is given by its \<^verbatim>\<open>e.key\<close>, a string.
\<close>

datatype DomEvent = MouseDownEv Node | ClickEv Node | BlurEv "Node option"

subsection \<open>Dropdown handlers\<close>

text \<open>\<^verbatim>\<open>onOpenChange?.(v)\<close>: the call is made only when the prop was supplied.\<close>

definition call_onOpenChange :: "DropdownProps \<Rightarrow> bool \<Rightarrow> bool list" where
  "call_onOpenChange p v = (if onOpenChange p then [v] else [])"

definition Dropdown_handleToggle ::
  "DropdownProps \<Rightarrow> DropdownState \<Rightarrow> DropdownState \<times> bool list" where
  "Dropdown_handleToggle p s =
     ((if isControlled p then s else s\<lparr>isOpen := \<not> isOpen s\<rparr>),
      call_onOpenChange p (\<not> Dropdown_open p s))"

definition Dropdown_handleClose ::
  "DropdownProps \<Rightarrow> DropdownState \<Rightarrow> DropdownState \<times> bool list" where
  "Dropdown_handleClose p s =
     ((if isControlled p then s else s\<lparr>isOpen := False\<rparr>), call_onOpenChange p False)"

text \<open>
  \<^verbatim>\<open>dropdownRef.current?.contains(e.relatedTarget)\<close>: the root element is attached while
  the component is mounted, and \<^verbatim>\<open>contains(null)\<close> is \<^verbatim>\<open>false\<close>.
\<close>

definition rootContains :: "Node option \<Rightarrow> bool" where
  "rootContains r = (case r of None \<Rightarrow> False | Some n \<Rightarrow> n \<noteq> Outside)"

definition Dropdown_handleBlur ::
  "DropdownProps \<Rightarrow> Node option \<Rightarrow> DropdownState \<Rightarrow> DropdownState \<times> bool list" where
  "Dropdown_handleBlur p relatedTarget s =
     (if closeOnBlur p \<and> \<not> rootContains relatedTarget then Dropdown_handleClose p s
      else (s, []))"

text \<open>
  \<^verbatim>\<open>handleEscape\<close> (lines 80-84) is created inside an effect. It reads \<^verbatim>\<open>closeOnEscape\<close>,
  \<^verbatim>\<open>open\<close> and \<^verbatim>\<open>handleClose\<close> of the render that created it: \<open>p\<close> and \<open>openv\<close> are that
  render's props and its value of \<^verbatim>\<open>open\<close>, \<open>s\<close> is the state when the key is pressed.
\<close>

definition Dropdown_handleEscape ::
  "DropdownProps \<Rightarrow> bool \<Rightarrow> string \<Rightarrow> DropdownState \<Rightarrow> DropdownState \<times> bool list" where
  "Dropdown_handleEscape p openv key s =
     (if closeOnEscape p \<and> key = ''Escape'' \<and> openv then Dropdown_handleClose p s
      else (s, []))"

text \<open>
  The handlers attached in the JSX of \<^verbatim>\<open>Dropdown.tsx\<close>, which every render binds anew:
  \<^verbatim>\<open>onClick={handleToggle}\<close> on the trigger wrapper and \<^verbatim>\<open>onBlur={handleBlur}\<close> on the root
  element. The root element spreads the remaining props after it
  (\<^verbatim>\<open>onBlur={handleBlur} {...props}\<close>, lines 178-179), so an \<^verbatim>\<open>onBlur\<close> passed by the caller
  replaces \<^verbatim>\<open>handleBlur\<close>: \<open>restOnBlur\<close> says whether the remaining props have an \<^verbatim>\<open>onBlur\<close>.
  No other handler of these events changes the state: \<^verbatim>\<open>handleItemClick\<close> is defined but
  attached nowhere, and there is no \<^verbatim>\<open>mousedown\<close> or document-level \<^verbatim>\<open>click\<close> listener.
\<close>

definition Dropdown_dispatch ::
  "DropdownProps \<Rightarrow> bool \<Rightarrow> DomEvent \<Rightarrow> DropdownState \<Rightarrow> DropdownState \<times> bool list" where
  "Dropdown_dispatch p restOnBlur ev s =
     (case ev of
        ClickEv n \<Rightarrow> (if n = InTrigger then Dropdown_handleToggle p s else (s, []))
      | BlurEv r \<Rightarrow> (if restOnBlur then (s, []) else Dropdown_handleBlur p r s)
      | MouseDownEv n \<Rightarrow> (s, []))"

text \<open>A sequence of events under fixed props; the callback calls are collected in order.\<close>

fun Dropdown_run ::
  "DropdownProps \<Rightarrow> bool \<Rightarrow> DomEvent list \<Rightarrow> DropdownState \<Rightarrow> DropdownState \<times> bool list"
  where
  "Dropdown_run p restOnBlur [] s = (s, [])"
| "Dropdown_run p restOnBlur (e # es) s =
     (let (s1, out1) = Dropdown_dispatch p restOnBlur e s;
          (s2, out2) = Dropdown_run p restOnBlur es s1
      in (s2, out1 @ out2))"

text \<open>
  The effect of lines 79-90 has the dependency array \<^verbatim>\<open>[open, closeOnEscape]\<close>. When it
  runs, the listener of its previous run is removed, and if \<^verbatim>\<open>open\<close> holds the new
  \<^verbatim>\<open>handleEscape\<close> is registered for the document's \<^verbatim>\<open>keydown\<close>. So the registered listener
  is the closure of the render in which \<^verbatim>\<open>open\<close> or \<^verbatim>\<open>closeOnEscape\<close> last changed.
  \<open>EscapeEffect\<close> keeps the dependency array of the last run (\<open>None\<close> before the first) and,
  while a listener is registered, the props and the value of \<^verbatim>\<open>open\<close> of its render.
\<close>

record EscapeEffect =
  esc_deps :: "(bool \<times> bool) option"
  esc_listener :: "(DropdownProps \<times> bool) option"

text \<open>The commit of a render with props \<open>p\<close> and state \<open>s\<close>.\<close>

definition Dropdown_escapeEffect ::
  "DropdownProps \<Rightarrow> DropdownState \<Rightarrow> EscapeEffect \<Rightarrow> EscapeEffect" where
  "Dropdown_escapeEffect p s e =
     (let openv = Dropdown_open p s;
          deps = (openv, closeOnEscape p)
      in if esc_deps e = Some deps then e
         else \<lparr>esc_deps = Some deps,
               esc_listener = (if openv then Some (p, openv) else None)\<rparr>)"

text \<open>A \<^verbatim>\<open>keydown\<close> with \<^verbatim>\<open>e.key = key\<close> on the document, in state \<open>s\<close>.\<close>

definition Dropdown_keydown ::
  "string \<Rightarrow> EscapeEffect \<Rightarrow> DropdownState \<Rightarrow> DropdownState \<times> bool list" where
  "Dropdown_keydown key e s =
     (case esc_listener e of
        None \<Rightarrow> (s, [])
      | Some (p, openv) \<Rightarrow> Dropdown_handleEscape p openv key s)"




text \<open>
  The floating element in the rendered output: \<^verbatim>\<open>{open && <div style={{ top: position.top,
  left: position.left }}>}\<close>. \<open>None\<close>: not rendered.
\<close>

definition Dropdown_render :: "DropdownProps \<Rightarrow> DropdownState \<Rightarrow> Position option" where
  "Dropdown_render p s = (if Dropdown_open p s then Some (position s) else None)"

subsection \<open>Menu handlers\<close>

text \<open>
  \<^verbatim>\<open>Menu.tsx\<close> declares the same props and state as \<^verbatim>\<open>Dropdown.tsx\<close> and its own copies
  of the handlers (lines 71-72, 86-97, 154-179).
\<close>

type_synonym MenuProps = DropdownProps

type_synonym MenuState = DropdownState

definition Menu_open :: "MenuProps \<Rightarrow> MenuState \<Rightarrow> bool" where
  "Menu_open p s = (case controlledOpen p of Some b \<Rightarrow> b | None \<Rightarrow> isOpen s)"

definition Menu_handleToggle :: "MenuProps \<Rightarrow> MenuState \<Rightarrow> MenuState \<times> bool list" where
  "Menu_handleToggle p s =
     ((if isControlled p then s else s\<lparr>isOpen := \<not> isOpen s\<rparr>),
      call_onOpenChange p (\<not> Menu_open p s))"

definition Menu_handleClose :: "MenuProps \<Rightarrow> MenuState \<Rightarrow> MenuState \<times> bool list" where
  "Menu_handleClose p s =
     ((if isControlled p then s else s\<lparr>isOpen := False\<rparr>), call_onOpenChange p False)"

definition Menu_handleBlur ::
  "MenuProps \<Rightarrow> Node option \<Rightarrow> MenuState \<Rightarrow> MenuState \<times> bool list" where
  "Menu_handleBlur p relatedTarget s =
     (if closeOnBlur p \<and> \<not> rootContains relatedTarget then Menu_handleClose p s else (s, []))"

definition Menu_handleEscape ::
  "MenuProps \<Rightarrow> bool \<Rightarrow> string \<Rightarrow> MenuState \<Rightarrow> MenuState \<times> bool list" where
  "Menu_handleEscape p openv key s =
     (if closeOnEscape p \<and> key = ''Escape'' \<and> openv then Menu_handleClose p s else (s, []))"

text \<open>
  The root element of \<^verbatim>\<open>Menu\<close> spreads the remaining props after \<^verbatim>\<open>onBlur={handleBlur}\<close> too
  (lines 185-186).
\<close>

definition Menu_dispatch ::
  "MenuProps \<Rightarrow> bool \<Rightarrow> DomEvent \<Rightarrow> MenuState \<Rightarrow> MenuState \<times> bool list" where
  "Menu_dispatch p restOnBlur ev s =
     (case ev of
        ClickEv n \<Rightarrow> (if n = InTrigger then Menu_handleToggle p s else (s, []))
      | BlurEv r \<Rightarrow> (if restOnBlur then (s, []) else Menu_handleBlur p r s)
      | MouseDownEv n \<Rightarrow> (s, []))"

text \<open>The effect of lines 86-97 and the \<^verbatim>\<open>keydown\<close> listener it registers.\<close>

definition Menu_escapeEffect :: "MenuProps \<Rightarrow> MenuState \<Rightarrow> EscapeEffect \<Rightarrow> EscapeEffect" where
  "Menu_escapeEffect p s e =
     (let openv = Menu_open p s;
          deps = (openv, closeOnEscape p)
      in if esc_deps e = Some deps then e
         else \<lparr>esc_deps = Some deps,
               esc_listener = (if openv then Some (p, openv) else None)\<rparr>)"

definition Menu_keydown ::
  "string \<Rightarrow> EscapeEffect \<Rightarrow> MenuState \<Rightarrow> MenuState \<times> bool list" where
  "Menu_keydown key e s =
     (case esc_listener e of
        None \<Rightarrow> (s, [])
      | Some (p, openv) \<Rightarrow> Menu_handleEscape p openv key s)"

subsection \<open>DatePicker: closing on a click outside\<close>

text \<open>
  Of the state of \<^verbatim>\<open>DatePicker\<close> only \<^verbatim>\<open>isOpen\<close> is read or written by the handlers below;
  the other cells (selected date, month, input text) are the record's extension.
\<close>

record DatePickerState =
  dp_isOpen :: bool

text \<open>
  \<^verbatim>\<open>handleClickOutside\<close> (lines 59-63). \<open>calendarRef\<close> says whether \<^verbatim>\<open>calendarRef.current\<close>
  is attached; \<^verbatim>\<open>calendarRef.current.contains(event.target)\<close> holds for targets inside the
  floating calendar.
\<close>

definition DatePicker_handleClickOutside ::
  "bool \<Rightarrow> Node \<Rightarrow> 'a DatePickerState_scheme \<Rightarrow> 'a DatePickerState_scheme" where
  "DatePicker_handleClickOutside calendarRef target s =
     (if calendarRef \<and> \<not> (target = InContent) then s\<lparr>dp_isOpen := False\<rparr> else s)"

text \<open>
  The wiring: \<^verbatim>\<open>handleClickOutside\<close> listens to the document's \<^verbatim>\<open>mousedown\<close> while
  \<^verbatim>\<open>isOpen\<close> (the effect of lines 58-69), when the calendar is rendered and its ref
  attached. \<open>target\<close> is the target of the \<^verbatim>\<open>mousedown\<close>.
\<close>

definition DatePicker_mousedown ::
  "Node \<Rightarrow> 'a DatePickerState_scheme \<Rightarrow> 'a DatePickerState_scheme" where
  "DatePicker_mousedown target s =
     (if dp_isOpen s then DatePicker_handleClickOutside (dp_isOpen s) target s else s)"

subsection \<open>Tooltip handlers and timers\<close>

text \<open>
  \<^verbatim>\<open>setTimeout(() => setIsVisible(true), ms)\<close> returns a fresh positive handle and queues
  the timer; \<^verbatim>\<open>clearTimeout(h)\<close> removes it. The host keeps a delay only up to
  2147483647 milliseconds: a timer asked for later than that is due after one millisecond.
\<close>

definition setTimeout :: "nat \<Rightarrow> TooltipState \<Rightarrow> nat \<times> TooltipState" where
  "setTimeout ms s =
     (let h = Suc (nextTimer s);
          wait = (if 2147483647 < ms then 1 else ms)
      in (h, s\<lparr>timers := timers s @ [(h, clock s + wait)], nextTimer := h\<rparr>))"

definition clearTimeout :: "nat \<Rightarrow> TooltipState \<Rightarrow> TooltipState" where
  "clearTimeout h s = s\<lparr>timers := filter (\<lambda>t. fst t \<noteq> h) (timers s)\<rparr>"

definition showTooltip :: "TooltipProps \<Rightarrow> TooltipState \<Rightarrow> TooltipState" where
  "showTooltip p s =
     (if disabled p then s
      else if delay p > 0 then
        (let (h, s1) = setTimeout (nat (delay p)) s in s1\<lparr>timeoutRef := Some h\<rparr>)
      else s\<lparr>isVisible := True\<rparr>)"

definition hideTooltip :: "TooltipState \<Rightarrow> TooltipState" where
  "hideTooltip s =
     (let s1 = (case timeoutRef s of
                  Some h \<Rightarrow> (clearTimeout h s)\<lparr>timeoutRef := None\<rparr>
                | None \<Rightarrow> s)
      in s1\<lparr>isVisible := False\<rparr>)"

definition handleMouseEnter :: "TooltipProps \<Rightarrow> TooltipState \<Rightarrow> TooltipState" where
  "handleMouseEnter p s = (if trigger p = Hover then showTooltip p s else s)"

definition handleMouseLeave :: "TooltipProps \<Rightarrow> TooltipState \<Rightarrow> TooltipState" where
  "handleMouseLeave p s = (if trigger p = Hover then hideTooltip s else s)"

definition handleClick :: "TooltipProps \<Rightarrow> TooltipState \<Rightarrow> TooltipState" where
  "handleClick p s = (if trigger p = Click then s\<lparr>isVisible := \<not> isVisible s\<rparr> else s)"

definition handleFocus :: "TooltipProps \<Rightarrow> TooltipState \<Rightarrow> TooltipState" where
  "handleFocus p s = (if trigger p = Focus then showTooltip p s else s)"

definition handleBlur :: "TooltipProps \<Rightarrow> TooltipState \<Rightarrow> TooltipState" where
  "handleBlur p s = (if trigger p = Focus then hideTooltip s else s)"

text \<open>
  The passing of \<open>ms\<close> milliseconds: the clock moves on and every timer that has become
  due runs its callback \<^verbatim>\<open>setIsVisible(true)\<close> and leaves the queue. (The callback does
  not touch \<^verbatim>\<open>timeoutRef\<close>.)
\<close>

definition advance :: "nat \<Rightarrow> TooltipState \<Rightarrow> TooltipState" where
  "advance ms s =
     (let now = clock s + ms
      in s\<lparr>isVisible := (if filter (\<lambda>t. snd t \<le> now) (timers s) = [] then isVisible s else True),
            timers := filter (\<lambda>t. \<not> snd t \<le> now) (timers s),
            clock := now\<rparr>)"

text \<open>
  What can happen to a mounted tooltip: the five React events of its wrapper element
  (\<^verbatim>\<open>onMouseEnter\<close>, \<^verbatim>\<open>onMouseLeave\<close>, \<^verbatim>\<open>onClick\<close>, \<^verbatim>\<open>onFocus\<close>, \<^verbatim>\<open>onBlur\<close>) and the
  passing of time.
\<close>

datatype TooltipEvent = MouseEnter | MouseLeave | ClickT | FocusT | BlurT | Wait nat

definition Tooltip_step :: "TooltipProps \<Rightarrow> TooltipEvent \<Rightarrow> TooltipState \<Rightarrow> TooltipState" where
  "Tooltip_step p ev s =
     (case ev of
        MouseEnter \<Rightarrow> handleMouseEnter p s
      | MouseLeave \<Rightarrow> handleMouseLeave p s
      | ClickT \<Rightarrow> handleClick p s
      | FocusT \<Rightarrow> handleFocus p s
      | BlurT \<Rightarrow> handleBlur p s
      | Wait ms \<Rightarrow> advance ms s)"

fun Tooltip_run :: "TooltipProps \<Rightarrow> TooltipEvent list \<Rightarrow> TooltipState \<Rightarrow> TooltipState" where
  "Tooltip_run p [] s = s"
| "Tooltip_run p (e # es) s = Tooltip_run p es (Tooltip_step p e s)"

text \<open>
  The floating element in the rendered output: \<^verbatim>\<open>{isVisible && <div style={{ top:
  tooltipPos.top, left: tooltipPos.left, ... }} {...props}>}\<close> (lines 283-298). The
  remaining props are spread after \<^verbatim>\<open>style\<close>, so a \<^verbatim>\<open>style\<close> passed by the caller replaces the
  whole style object, \<^verbatim>\<open>top\<close> and \<^verbatim>\<open>left\<close> included: \<open>restStyle\<close> says whether the remaining
  props have a \<^verbatim>\<open>style\<close>. \<open>None\<close>: not rendered.
\<close>

datatype FloatingStyle = StoredPosition Position | CallerStyle

definition Tooltip_render :: "bool \<Rightarrow> TooltipState \<Rightarrow> FloatingStyle option" where
  "Tooltip_render restStyle s =
     (if isVisible s then Some (if restStyle then CallerStyle else StoredPosition (tooltipPos s))
      else None)"

section \<open>Window listeners and the positioning effect\<close>

text \<open>
  A listener registered on \<^verbatim>\<open>window\<close> is identified, as in the DOM, by its event name, its
  callback and its capture flag. The callback \<^verbatim>\<open>updatePosition\<close> is a closure that every
  render of a component creates anew; its identity is the pair of the component instance
  and the number of the render that created it.
\<close>

type_synonym Handler = "nat \<times> nat"

type_synonym Listener = "string \<times> Handler \<times> bool"

text \<open>
  \<^verbatim>\<open>addEventListener\<close> does not register the same listener twice;
  \<^verbatim>\<open>removeEventListener\<close> removes the listener with the same name, callback and flag.
\<close>

definition addEventListener :: "Listener \<Rightarrow> Listener list \<Rightarrow> Listener list" where
  "addEventListener l ls = (if l \<in> set ls then ls else ls @ [l])"

definition removeEventListener :: "Listener \<Rightarrow> Listener list \<Rightarrow> Listener list" where
  "removeEventListener l ls = removeAll l ls"

datatype WinOp = AddListener Listener | RemoveListener Listener

fun applyOp :: "WinOp \<Rightarrow> Listener list \<Rightarrow> Listener list" where
  "applyOp (AddListener l) ls = addEventListener l ls"
| "applyOp (RemoveListener l) ls = removeEventListener l ls"

definition applyOps :: "WinOp list \<Rightarrow> Listener list \<Rightarrow> Listener list" where
  "applyOps ops ls = fold applyOp ops ls"

text \<open>
  A mounted component with its positioning effect, as React keeps it: the state cells,
  the listeners of the shared \<^verbatim>\<open>window\<close>, the dependency array of the effect's last run
  (\<open>None\<close> before the first), the cleanup that run returned (the calls it will make; empty
  when it returned none), the instance and the number of renders so far.
\<close>

record ('s, 'd) Mounted =
  m_state :: 's
  m_window :: "Listener list"
  m_lastDeps :: "'d option"
  m_cleanup :: "WinOp list"
  m_inst :: nat
  m_renders :: nat

text \<open>Unmounting runs the pending cleanup.\<close>

definition unmount :: "('s, 'd) Mounted \<Rightarrow> ('s, 'd) Mounted" where
  "unmount m = m\<lparr>m_window := applyOps (m_cleanup m) (m_window m), m_cleanup := []\<rparr>"

text \<open>
  The effect of \<^verbatim>\<open>Dropdown.tsx\<close>, lines 67-77, run with the closure \<open>fn\<close> of the current
  render as \<^verbatim>\<open>updatePosition\<close>: the new state, the calls made on \<^verbatim>\<open>window\<close>, and the calls
  of the cleanup it returns.
\<close>

definition Dropdown_positionEffect ::
  "DropdownProps \<Rightarrow> Dom \<Rightarrow> Handler \<Rightarrow> DropdownState \<Rightarrow>
     error + (DropdownState \<times> WinOp list \<times> WinOp list)" where
  "Dropdown_positionEffect p d fn s =
     (if Dropdown_open p s then
        (case Dropdown_updatePosition p d s of
           Inl e \<Rightarrow> Inl e
         | Inr s1 \<Rightarrow>
             Inr (s1,
                  [AddListener (''resize'', fn, False), AddListener (''scroll'', fn, False)],
                  [RemoveListener (''resize'', fn, False),
                   RemoveListener (''scroll'', fn, False)]))
      else Inr (s, [], []))"

text \<open>
  The commit of a render: React compares the dependency array \<^verbatim>\<open>[open]\<close> with the one of
  the last run; if it differs, the pending cleanup runs first and then the effect.
\<close>

definition Dropdown_commit ::
  "DropdownProps \<Rightarrow> Dom \<Rightarrow> (DropdownState, bool) Mounted \<Rightarrow>
     error + (DropdownState, bool) Mounted" where
  "Dropdown_commit p d m =
     (let deps = Dropdown_open p (m_state m);
          fn = (m_inst m, m_renders m)
      in if m_lastDeps m = Some deps then Inr (m\<lparr>m_renders := Suc (m_renders m)\<rparr>)
         else
           (case Dropdown_positionEffect p d fn (m_state m) of
              Inl e \<Rightarrow> Inl e
            | Inr (s1, ops, cleanup) \<Rightarrow>
                Inr (m\<lparr>m_state := s1,
                       m_window := applyOps ops (applyOps (m_cleanup m) (m_window m)),
                       m_lastDeps := Some deps,
                       m_cleanup := cleanup,
                       m_renders := Suc (m_renders m)\<rparr>)))"

text \<open>
  The effect of \<^verbatim>\<open>Tooltip.tsx\<close>, lines 77-88; the scroll listener is registered and
  removed with the capture flag \<^verbatim>\<open>true\<close>.
\<close>

definition Tooltip_positionEffect ::
  "TooltipProps \<Rightarrow> Dom \<Rightarrow> Handler \<Rightarrow> TooltipState \<Rightarrow>
     error + (TooltipState \<times> WinOp list \<times> WinOp list)" where
  "Tooltip_positionEffect p d fn s =
     (if isVisible s then
        (case Tooltip_updatePosition p d s of
           Inl e \<Rightarrow> Inl e
         | Inr s1 \<Rightarrow>
             Inr (s1,
                  [AddListener (''resize'', fn, False), AddListener (''scroll'', fn, True)],
                  [RemoveListener (''resize'', fn, False),
                   RemoveListener (''scroll'', fn, True)]))
      else Inr (s, [], []))"

text \<open>
  The dependency array \<^verbatim>\<open>[isVisible, positionProp, align, offset, maxWidth, content]\<close>.
\<close>

type_synonym TooltipDeps = "bool \<times> Side \<times> Align \<times> real \<times> real \<times> string"

definition Tooltip_deps :: "TooltipProps \<Rightarrow> TooltipState \<Rightarrow> TooltipDeps" where
  "Tooltip_deps p s =
     (isVisible s, positionProp p, tt_align p, tt_offset p, maxWidth p, content p)"

definition Tooltip_commit ::
  "TooltipProps \<Rightarrow> Dom \<Rightarrow> (TooltipState, TooltipDeps) Mounted \<Rightarrow>
     error + (TooltipState, TooltipDeps) Mounted" where
  "Tooltip_commit p d m =
     (let deps = Tooltip_deps p (m_state m);
          fn = (m_inst m, m_renders m)
      in if m_lastDeps m = Some deps then Inr (m\<lparr>m_renders := Suc (m_renders m)\<rparr>)
         else
           (case Tooltip_positionEffect p d fn (m_state m) of
              Inl e \<Rightarrow> Inl e
            | Inr (s1, ops, cleanup) \<Rightarrow>
                Inr (m\<lparr>m_state := s1,
                       m_window := applyOps ops (applyOps (m_cleanup m) (m_window m)),
                       m_lastDeps := Some deps,
                       m_cleanup := cleanup,
                       m_renders := Suc (m_renders m)\<rparr>)))"

section \<open>Reference definitions\<close>

text \<open>
  The bounds of an element in document coordinates: its viewport rectangle moved by the
  scroll offsets.
\<close>

definition toDocument :: "DOMRect \<Rightarrow> Dom \<Rightarrow> DOMRect" where
  "toDocument r d =
     r\<lparr>rect_top := rect_top r + scrollTop d, rect_bottom := rect_bottom r + scrollTop d,
       rect_left := rect_left r + scrollLeft d, rect_right := rect_right r + scrollLeft d\<rparr>"

text \<open>
  The placement rules as the specification words them: \<open>side\<close> fixes the coordinate of the
  primary axis, \<open>al\<close> the one of the cross axis (\<open>left\<close> for the sides top and bottom,
  \<open>top\<close> for the sides left and right).
\<close>

definition spec_resolvePosition ::
  "DOMRect \<Rightarrow> DOMRect \<Rightarrow> Side \<Rightarrow> Align \<Rightarrow> real \<Rightarrow> Position" where
  "spec_resolvePosition trig floating side al off =
     (let crossLeft =
            (case al of
               AlignStart \<Rightarrow> rect_left trig
             | AlignCenter \<Rightarrow> rect_left trig + rect_width trig / 2 - rect_width floating / 2
             | AlignEnd \<Rightarrow> rect_right trig - rect_width floating);
          crossTop =
            (case al of
               AlignStart \<Rightarrow> rect_top trig
             | AlignCenter \<Rightarrow> rect_top trig + rect_height trig / 2 - rect_height floating / 2
             | AlignEnd \<Rightarrow> rect_bottom trig - rect_height floating)
      in case side of
           SideBottom \<Rightarrow> \<lparr>pos_top = rect_bottom trig + off, pos_left = crossLeft\<rparr>
         | SideTop \<Rightarrow>
             \<lparr>pos_top = rect_top trig - rect_height floating - off, pos_left = crossLeft\<rparr>
         | SideLeft \<Rightarrow>
             \<lparr>pos_top = crossTop, pos_left = rect_left trig - rect_width floating - off\<rparr>
         | SideRight \<Rightarrow> \<lparr>pos_top = crossTop, pos_left = rect_right trig + off\<rparr>)"

text \<open>A page without scroll in which both elements are attached.\<close>

definition unscrolled :: "DOMRect \<Rightarrow> DOMRect \<Rightarrow> Dom" where
  "unscrolled trig floating =
     \<lparr>triggerRef = Some trig, contentRef = Some floating, pageYOffset = 0, pageXOffset = 0,
      docScrollTop = 0, docScrollLeft = 0\<rparr>"

text \<open>
  The pointer as a trace of events describes it: \<open>None\<close> while it is outside the wrapper
  of the tooltip, \<open>Some t\<close> when it entered \<open>t\<close> milliseconds ago.
\<close>

fun hover_next :: "nat option \<Rightarrow> TooltipEvent \<Rightarrow> nat option" where
  "hover_next h MouseEnter = Some 0"
| "hover_next h MouseLeave = None"
| "hover_next h (Wait ms) = map_option (\<lambda>t. t + ms) h"
| "hover_next h ClickT = h"
| "hover_next h FocusT = h"
| "hover_next h BlurT = h"

fun hovered :: "nat option \<Rightarrow> TooltipEvent list \<Rightarrow> nat option" where
  "hovered h [] = h"
| "hovered h (e # es) = hovered (hover_next h e) es"

text \<open>
  In a pointer trace \<^verbatim>\<open>mouseenter\<close> and \<^verbatim>\<open>mouseleave\<close> alternate: the pointer enters only
  from outside and leaves only from inside.
\<close>

fun pointer_ok :: "nat option \<Rightarrow> TooltipEvent \<Rightarrow> bool" where
  "pointer_ok h MouseEnter = (h = None)"
| "pointer_ok h MouseLeave = (h \<noteq> None)"
| "pointer_ok h (Wait ms) = True"
| "pointer_ok h ClickT = True"
| "pointer_ok h FocusT = True"
| "pointer_ok h BlurT = True"

fun pointer_trace :: "nat option \<Rightarrow> TooltipEvent list \<Rightarrow> bool" where
  "pointer_trace h [] = True"
| "pointer_trace h (e # es) = (pointer_ok h e \<and> pointer_trace (hover_next h e) es)"

text \<open>
  The invariant of a hover tooltip along a pointer trace: outside, it is hidden and no
  timer is pending; inside and before the delay has passed, it is hidden and the one
  pending timer is the one \<^verbatim>\<open>timeoutRef\<close> holds, due when the delay ends; afterwards it is
  visible.
\<close>

definition hover_inv :: "TooltipProps \<Rightarrow> nat option \<Rightarrow> TooltipState \<Rightarrow> bool" where
  "hover_inv p h s =
     (case h of
        None \<Rightarrow> \<not> isVisible s \<and> timers s = []
      | Some t \<Rightarrow>
          if delay p \<le> int t then isVisible s \<and> timers s = []
          else \<not> isVisible s \<and> timeoutRef s \<noteq> None
               \<and> timers s = [(the (timeoutRef s), clock s + (nat (delay p) - t))])"

text \<open>
  Example instances: a window on which another component has listeners, and a dropdown
  and a tooltip that were mounted closed and whose current render is the opening one.
\<close>

definition busy_window :: "Listener list" where
  "busy_window = [(''resize'', (7, 0), False), (''scroll'', (7, 0), True)]"

definition mounted_Dropdown :: "(DropdownState, bool) Mounted" where
  "mounted_Dropdown =
     \<lparr>m_state = Dropdown_init\<lparr>isOpen := True\<rparr>, m_window = busy_window,
      m_lastDeps = Some False, m_cleanup = [], m_inst = 1, m_renders = 3\<rparr>"

definition mounted_Tooltip :: "(TooltipState, TooltipDeps) Mounted" where
  "mounted_Tooltip =
     \<lparr>m_state = Tooltip_init\<lparr>isVisible := True\<rparr>, m_window = busy_window,
      m_lastDeps = Some (Tooltip_deps (Tooltip_defaults ''tip'') Tooltip_init), m_cleanup = [],
      m_inst = 2, m_renders = 5\<rparr>"

text \<open>
  An Escape effect whose last run found the overlay closed; a page before and after its
  trigger has moved down by 100 pixels; the default props with the placement changed.
\<close>

definition closed_escape :: EscapeEffect where
  "closed_escape = \<lparr>esc_deps = Some (False, True), esc_listener = None\<rparr>"




section \<open>The geometry resolver\<close>

text \<open>
  With both elements attached, \<^verbatim>\<open>updatePosition\<close> stores the position that the placement
  rules give for the trigger's bounds in document coordinates.
\<close>

lemma Dropdown_updatePosition_measured:
  "Dropdown_updatePosition p (d\<lparr>triggerRef := Some tr, contentRef := Some fl\<rparr>) s =
     Inr (s\<lparr>position :=
              spec_resolvePosition (toDocument tr d) fl (placement p) (align p) (offset p)\<rparr>)"
  by (cases "placement p"; cases "align p")
     (simp_all add: Dropdown_updatePosition_def getBoundingClientRect_def
        spec_resolvePosition_def toDocument_def scrollTop_def scrollLeft_def)

lemma Tooltip_updatePosition_measured:
  "Tooltip_updatePosition p (d\<lparr>triggerRef := Some tr, contentRef := Some fl\<rparr>) s =
     Inr (s\<lparr>tooltipPos :=
              spec_resolvePosition (toDocument tr d) fl (positionProp p) (tt_align p)
                (tt_offset p)\<rparr>)"
  by (cases "positionProp p"; cases "tt_align p")
     (simp_all add: Tooltip_updatePosition_def getBoundingClientRect_def
        spec_resolvePosition_def toDocument_def scrollTop_def scrollLeft_def)

text \<open>On a page without scroll the document coordinates are the viewport's.\<close>

lemma unscrolled_update:
  "unscrolled tr fl = (unscrolled tr fl)\<lparr>triggerRef := Some tr, contentRef := Some fl\<rparr>"
  by (simp add: unscrolled_def)

lemma toDocument_unscrolled: "toDocument tr (unscrolled tr fl) = tr"
  by (simp add: toDocument_def unscrolled_def scrollTop_def scrollLeft_def js_or_def)

lemma Dropdown_example:
  "Dropdown_updatePosition p (unscrolled tr fl) s =
     Inr (s\<lparr>position := spec_resolvePosition tr fl (placement p) (align p) (offset p)\<rparr>)"
  using Dropdown_updatePosition_measured [where p = p and d = "unscrolled tr fl" and tr = tr and fl = fl and s = s]
  by (simp add: toDocument_unscrolled unscrolled_update [symmetric])

lemma Tooltip_example:
  "Tooltip_updatePosition p (unscrolled tr fl) s =
     Inr (s\<lparr>tooltipPos := spec_resolvePosition tr fl (positionProp p) (tt_align p) (tt_offset p)\<rparr>)"
  using Tooltip_updatePosition_measured [where p = p and d = "unscrolled tr fl" and tr = tr and fl = fl and s = s]
  by (simp add: toDocument_unscrolled unscrolled_update [symmetric])

text \<open>The three placements worked out in the specification.\<close>

lemma spec_examples:
  "spec_resolvePosition (domRect 100 100 50 20) (domRect x y 80 40) SideBottom AlignStart 8
     = \<lparr>pos_top = 128, pos_left = 100\<rparr>"
  "spec_resolvePosition (domRect 100 100 50 20) (domRect x y 80 40) SideTop AlignCenter 8
     = \<lparr>pos_top = 52, pos_left = 85\<rparr>"
  "spec_resolvePosition (domRect 100 100 50 20) (domRect x y 80 40) SideRight AlignEnd 8
     = \<lparr>pos_top = 80, pos_left = 158\<rparr>"
  by (simp_all add: spec_resolvePosition_def domRect_def)

text \<open>
  Claim C1. For every trigger rectangle, floating rectangle, offset, side and align, the
  position that \<^verbatim>\<open>updatePosition\<close> of \<^verbatim>\<open>Dropdown\<close> and of \<^verbatim>\<open>Tooltip\<close> stores is the one of the
  placement formulas (\<open>spec_resolvePosition\<close>, on the trigger's bounds in document
  coordinates). In particular, for the trigger \<^verbatim>\<open>{top:100, left:100, width:50, height:20}\<close>,
  a floating element of size 80 by 40, offset 8 and no scroll: bottom/start gives
  \<^verbatim>\<open>{top:128, left:100}\<close>, top/center gives \<^verbatim>\<open>{top:52, left:85}\<close> and right/end gives
  \<^verbatim>\<open>{top:80, left:158}\<close>.
\<close>

theorem C1_placement_formulas:
  "Dropdown_updatePosition p (d\<lparr>triggerRef := Some tr, contentRef := Some fl\<rparr>) s =
     Inr (s\<lparr>position :=
              spec_resolvePosition (toDocument tr d) fl (placement p) (align p) (offset p)\<rparr>)
   \<and> Tooltip_updatePosition q (d\<lparr>triggerRef := Some tr, contentRef := Some fl\<rparr>) t =
     Inr (t\<lparr>tooltipPos :=
              spec_resolvePosition (toDocument tr d) fl (positionProp q) (tt_align q)
                (tt_offset q)\<rparr>)
   \<and> Dropdown_updatePosition (p\<lparr>placement := SideBottom, align := AlignStart, offset := 8\<rparr>)
       (unscrolled (domRect 100 100 50 20) (domRect x y 80 40)) s =
     Inr (s\<lparr>position := \<lparr>pos_top = 128, pos_left = 100\<rparr>\<rparr>)
   \<and> Dropdown_updatePosition (p\<lparr>placement := SideTop, align := AlignCenter, offset := 8\<rparr>)
       (unscrolled (domRect 100 100 50 20) (domRect x y 80 40)) s =
     Inr (s\<lparr>position := \<lparr>pos_top = 52, pos_left = 85\<rparr>\<rparr>)
   \<and> Dropdown_updatePosition (p\<lparr>placement := SideRight, align := AlignEnd, offset := 8\<rparr>)
       (unscrolled (domRect 100 100 50 20) (domRect x y 80 40)) s =
     Inr (s\<lparr>position := \<lparr>pos_top = 80, pos_left = 158\<rparr>\<rparr>)
   \<and> Tooltip_updatePosition
       (q\<lparr>positionProp := SideBottom, tt_align := AlignStart, tt_offset := 8\<rparr>)
       (unscrolled (domRect 100 100 50 20) (domRect x y 80 40)) t =
     Inr (t\<lparr>tooltipPos := \<lparr>pos_top = 128, pos_left = 100\<rparr>\<rparr>)
   \<and> Tooltip_updatePosition
       (q\<lparr>positionProp := SideTop, tt_align := AlignCenter, tt_offset := 8\<rparr>)
       (unscrolled (domRect 100 100 50 20) (domRect x y 80 40)) t =
     Inr (t\<lparr>tooltipPos := \<lparr>pos_top = 52, pos_left = 85\<rparr>\<rparr>)
   \<and> Tooltip_updatePosition
       (q\<lparr>positionProp := SideRight, tt_align := AlignEnd, tt_offset := 8\<rparr>)
       (unscrolled (domRect 100 100 50 20) (domRect x y 80 40)) t =
     Inr (t\<lparr>tooltipPos := \<lparr>pos_top = 80, pos_left = 158\<rparr>\<rparr>)"
  by (simp add: Dropdown_updatePosition_measured Tooltip_updatePosition_measured
        Dropdown_example Tooltip_example spec_examples)

text \<open>
  Claim C8. When the trigger ref or the floating element's ref is \<^verbatim>\<open>null\<close>,
  \<^verbatim>\<open>updatePosition\<close> returns normally (no \<^verbatim>\<open>TypeError\<close>) and leaves the state, the stored
  position included, as it was.
\<close>

theorem C8_null_ref_noop:
  assumes "triggerRef d = None \<or> contentRef d = None"
  shows "Dropdown_updatePosition p d s = Inr s \<and> Tooltip_updatePosition q d t = Inr t"
  using assms by (auto simp: Dropdown_updatePosition_def Tooltip_updatePosition_def)

text \<open>A detached trigger: the positions stored earlier survive the call.\<close>

theorem C8_null_ref_noop_witness:
  "Dropdown_updatePosition Dropdown_defaults
     \<lparr>triggerRef = None, contentRef = Some (domRect 0 0 80 40), pageYOffset = 0,
      pageXOffset = 0, docScrollTop = 0, docScrollLeft = 0\<rparr>
     (Dropdown_init\<lparr>position := \<lparr>pos_top = 128, pos_left = 100\<rparr>\<rparr>) =
       Inr (Dropdown_init\<lparr>position := \<lparr>pos_top = 128, pos_left = 100\<rparr>\<rparr>)
   \<and> Tooltip_updatePosition (Tooltip_defaults ''tip'')
     \<lparr>triggerRef = None, contentRef = Some (domRect 0 0 80 40), pageYOffset = 0,
      pageXOffset = 0, docScrollTop = 0, docScrollLeft = 0\<rparr>
     (Tooltip_init\<lparr>tooltipPos := \<lparr>pos_top = 52, pos_left = 85\<rparr>\<rparr>) =
       Inr (Tooltip_init\<lparr>tooltipPos := \<lparr>pos_top = 52, pos_left = 85\<rparr>\<rparr>)"
  using C8_null_ref_noop [of "\<lparr>triggerRef = None, contentRef = Some (domRect 0 0 80 40), pageYOffset = 0,
      pageXOffset = 0, docScrollTop = 0, docScrollLeft = 0\<rparr>" Dropdown_defaults
      "Dropdown_init\<lparr>position := \<lparr>pos_top = 128, pos_left = 100\<rparr>\<rparr>"
      "Tooltip_defaults ''tip''" "Tooltip_init\<lparr>tooltipPos := \<lparr>pos_top = 52, pos_left = 85\<rparr>\<rparr>"]
  by simp

section \<open>Open/close transitions\<close>

text \<open>
  Claim C5. In controlled mode (the \<^verbatim>\<open>open\<close> prop is supplied) the close and toggle
  requests of \<^verbatim>\<open>Dropdown\<close> and \<^verbatim>\<open>Menu\<close> leave the state, and so the internal flag,
  unchanged; their only effect is the call of \<^verbatim>\<open>onOpenChange\<close> (if supplied) with the
  requested value, and the effective \<^verbatim>\<open>open\<close> stays the supplied one.
\<close>

theorem C5_controlled_mode_read_only:
  "Dropdown_handleClose (p\<lparr>controlledOpen := Some b\<rparr>) s
       = (s, if onOpenChange p then [False] else [])
   \<and> Dropdown_handleToggle (p\<lparr>controlledOpen := Some b\<rparr>) s
       = (s, if onOpenChange p then [\<not> b] else [])
   \<and> Dropdown_open (p\<lparr>controlledOpen := Some b\<rparr>) s = b
   \<and> Dropdown_open (p\<lparr>controlledOpen := Some b\<rparr>)
         (fst (Dropdown_handleClose (p\<lparr>controlledOpen := Some b\<rparr>) s)) = b
   \<and> Menu_handleClose (p\<lparr>controlledOpen := Some b\<rparr>) s
       = (s, if onOpenChange p then [False] else [])
   \<and> Menu_handleToggle (p\<lparr>controlledOpen := Some b\<rparr>) s
       = (s, if onOpenChange p then [\<not> b] else [])
   \<and> Menu_open (p\<lparr>controlledOpen := Some b\<rparr>) s = b
   \<and> Menu_open (p\<lparr>controlledOpen := Some b\<rparr>)
         (fst (Menu_handleClose (p\<lparr>controlledOpen := Some b\<rparr>) s)) = b"
  by (simp add: Dropdown_handleClose_def Dropdown_handleToggle_def Dropdown_open_def
        Menu_handleClose_def Menu_handleToggle_def Menu_open_def isControlled_def
        call_onOpenChange_def)

text \<open>
  A dropdown that is controlled from its mount and whose caller keeps \<^verbatim>\<open>open\<close> at \<^verbatim>\<open>true\<close>:
  with \<^verbatim>\<open>closeOnEscape\<close> set, it is open before and after an Escape keydown.
\<close>

theorem C7_escape_controlled_counterexample:
  "closeOnEscape (Dropdown_defaults\<lparr>controlledOpen := Some True\<rparr>)
   \<and> Dropdown_open (Dropdown_defaults\<lparr>controlledOpen := Some True\<rparr>) Dropdown_init
   \<and> Dropdown_open (Dropdown_defaults\<lparr>controlledOpen := Some True\<rparr>)
        (fst (Dropdown_keydown ''Escape''
               (Dropdown_escapeEffect (Dropdown_defaults\<lparr>controlledOpen := Some True\<rparr>)
                  Dropdown_init \<lparr>esc_deps = None, esc_listener = None\<rparr>)
               Dropdown_init))"
  by (simp add: Dropdown_defaults_def Dropdown_open_def Dropdown_keydown_def
        Dropdown_escapeEffect_def Dropdown_handleEscape_def Dropdown_handleClose_def
        isControlled_def)

text \<open>
  The commit of a render in which the overlay is open and the dependencies differ from
  the last run registers that render's \<^verbatim>\<open>handleEscape\<close>; later renders in which the overlay
  is open with the same \<^verbatim>\<open>closeOnEscape\<close> keep it.
\<close>

lemma Dropdown_escape_registered:
  assumes "esc_deps e \<noteq> Some (Dropdown_open p s, closeOnEscape p)" "Dropdown_open p s"
  shows "Dropdown_escapeEffect p s e
           = \<lparr>esc_deps = Some (True, closeOnEscape p), esc_listener = Some (p, True)\<rparr>"
  using assms by (simp add: Dropdown_escapeEffect_def)

lemma Menu_escape_registered:
  assumes "esc_deps e \<noteq> Some (Menu_open p s, closeOnEscape p)" "Menu_open p s"
  shows "Menu_escapeEffect p s e
           = \<lparr>esc_deps = Some (True, closeOnEscape p), esc_listener = Some (p, True)\<rparr>"
  using assms by (simp add: Menu_escapeEffect_def)

lemma Dropdown_escape_kept:
  assumes "esc_deps e \<noteq> Some (Dropdown_open p s, closeOnEscape p)" "Dropdown_open p s"
    and "Dropdown_open p' s'" "closeOnEscape p' = closeOnEscape p"
  shows "Dropdown_escapeEffect p' s' (Dropdown_escapeEffect p s e) = Dropdown_escapeEffect p s e"
  using assms by (simp add: Dropdown_escape_registered) (simp add: Dropdown_escapeEffect_def)

lemma Menu_escape_kept:
  assumes "esc_deps e \<noteq> Some (Menu_open p s, closeOnEscape p)" "Menu_open p s"
    and "Menu_open p' s'" "closeOnEscape p' = closeOnEscape p"
  shows "Menu_escapeEffect p' s' (Menu_escapeEffect p s e) = Menu_escapeEffect p s e"
  using assms by (simp add: Menu_escape_registered) (simp add: Menu_escapeEffect_def)

lemma Dropdown_escape_key:
  assumes "esc_deps e \<noteq> Some (Dropdown_open p s, closeOnEscape p)" "Dropdown_open p s"
    and "closeOnEscape p' = closeOnEscape p" "controlledOpen p' = controlledOpen p"
        "onOpenChange p' = onOpenChange p"
  shows "Dropdown_keydown ''Escape'' (Dropdown_escapeEffect p s e) s'
           = (if closeOnEscape p'
              then (if controlledOpen p' = None then s'\<lparr>isOpen := False\<rparr> else s',
                    if onOpenChange p' then [False] else [])
              else (s', []))"
  using assms
  by (simp add: Dropdown_escape_registered Dropdown_keydown_def Dropdown_handleEscape_def
        Dropdown_handleClose_def isControlled_def call_onOpenChange_def)

lemma Menu_escape_key:
  assumes "esc_deps e \<noteq> Some (Menu_open p s, closeOnEscape p)" "Menu_open p s"
    and "closeOnEscape p' = closeOnEscape p" "controlledOpen p' = controlledOpen p"
        "onOpenChange p' = onOpenChange p"
  shows "Menu_keydown ''Escape'' (Menu_escapeEffect p s e) s'
           = (if closeOnEscape p'
              then (if controlledOpen p' = None then s'\<lparr>isOpen := False\<rparr> else s',
                    if onOpenChange p' then [False] else [])
              else (s', []))"
  using assms
  by (simp add: Menu_escape_registered Menu_keydown_def Menu_handleEscape_def
        Menu_handleClose_def isControlled_def call_onOpenChange_def)

text \<open>
  Claim C7, as the code has it. Take a \<^verbatim>\<open>Dropdown\<close> or a \<^verbatim>\<open>Menu\<close> that is open, and whose
  \<^verbatim>\<open>closeOnEscape\<close>, mode (an \<^verbatim>\<open>open\<close> prop or none) and \<^verbatim>\<open>onOpenChange\<close> are still those of
  the render \<open>p\<close> that registered its \<^verbatim>\<open>keydown\<close> listener. An Escape keydown leaves it open
  and calls nothing when \<^verbatim>\<open>closeOnEscape\<close> is \<^verbatim>\<open>false\<close>. When it is \<^verbatim>\<open>true\<close>, an uncontrolled
  overlay becomes closed, and a controlled one keeps its state and stays open; in both
  modes \<^verbatim>\<open>onOpenChange(false)\<close> is called if the callback was supplied.
\<close>

theorem C7_escape_closes_when_enabled:
  assumes registered: "esc_deps e \<noteq> Some (Dropdown_open p s, closeOnEscape p)"
      "Dropdown_open p s"
    and still_open: "Dropdown_open p' s'"
    and same: "closeOnEscape p' = closeOnEscape p" "controlledOpen p' = controlledOpen p"
      "onOpenChange p' = onOpenChange p"
  shows "Dropdown_escapeEffect p' s' (Dropdown_escapeEffect p s e) = Dropdown_escapeEffect p s e
    \<and> Dropdown_keydown ''Escape'' (Dropdown_escapeEffect p s e) s'
        = (if closeOnEscape p'
           then (if controlledOpen p' = None then s'\<lparr>isOpen := False\<rparr> else s',
                 if onOpenChange p' then [False] else [])
           else (s', []))
    \<and> Dropdown_open p' (fst (Dropdown_keydown ''Escape'' (Dropdown_escapeEffect p s e) s'))
        = (if closeOnEscape p' then controlledOpen p' \<noteq> None else True)
    \<and> Menu_escapeEffect p' s' (Menu_escapeEffect p s e) = Menu_escapeEffect p s e
    \<and> Menu_keydown ''Escape'' (Menu_escapeEffect p s e) s'
        = (if closeOnEscape p'
           then (if controlledOpen p' = None then s'\<lparr>isOpen := False\<rparr> else s',
                 if onOpenChange p' then [False] else [])
           else (s', []))
    \<and> Menu_open p' (fst (Menu_keydown ''Escape'' (Menu_escapeEffect p s e) s'))
        = (if closeOnEscape p' then controlledOpen p' \<noteq> None else True)"
proof -
  have m: "esc_deps e \<noteq> Some (Menu_open p s, closeOnEscape p)" "Menu_open p s" "Menu_open p' s'"
    using registered still_open by (simp_all add: Menu_open_def Dropdown_open_def)
  have k: "Dropdown_keydown ''Escape'' (Dropdown_escapeEffect p s e) s'
        = (if closeOnEscape p'
           then (if controlledOpen p' = None then s'\<lparr>isOpen := False\<rparr> else s',
                 if onOpenChange p' then [False] else [])
           else (s', []))"
    using registered same by (rule Dropdown_escape_key)
  have km: "Menu_keydown ''Escape'' (Menu_escapeEffect p s e) s'
        = (if closeOnEscape p'
           then (if controlledOpen p' = None then s'\<lparr>isOpen := False\<rparr> else s',
                 if onOpenChange p' then [False] else [])
           else (s', []))"
    using m(1,2) same by (rule Menu_escape_key)
  have kept: "Dropdown_escapeEffect p' s' (Dropdown_escapeEffect p s e)
        = Dropdown_escapeEffect p s e"
    using registered still_open same(1) by (rule Dropdown_escape_kept)
  have keptm: "Menu_escapeEffect p' s' (Menu_escapeEffect p s e) = Menu_escapeEffect p s e"
    using m same(1) by (rule Menu_escape_kept)
  have o: "Dropdown_open p' (fst (Dropdown_keydown ''Escape'' (Dropdown_escapeEffect p s e) s'))
        = (if closeOnEscape p' then controlledOpen p' \<noteq> None else True)"
    using still_open by (auto simp: k Dropdown_open_def split: option.splits)
  have om: "Menu_open p' (fst (Menu_keydown ''Escape'' (Menu_escapeEffect p s e) s'))
        = (if closeOnEscape p' then controlledOpen p' \<noteq> None else True)"
    using m(3) by (auto simp: km Menu_open_def split: option.splits)
  show ?thesis using k km kept keptm o om by simp
qed

text \<open>
  An uncontrolled dropdown and menu with the default props that have just opened, and a
  dropdown with \<^verbatim>\<open>closeOnEscape\<close> off.
\<close>

theorem C7_escape_closes_when_enabled_witness:
  "Dropdown_keydown ''Escape''
     (Dropdown_escapeEffect Dropdown_defaults (Dropdown_init\<lparr>isOpen := True\<rparr>) closed_escape)
     (Dropdown_init\<lparr>isOpen := True\<rparr>) = (Dropdown_init, [])
   \<and> Dropdown_keydown ''Escape''
     (Dropdown_escapeEffect (Dropdown_defaults\<lparr>closeOnEscape := False\<rparr>)
        (Dropdown_init\<lparr>isOpen := True\<rparr>) closed_escape)
     (Dropdown_init\<lparr>isOpen := True\<rparr>) = (Dropdown_init\<lparr>isOpen := True\<rparr>, [])
   \<and> Menu_keydown ''Escape''
     (Menu_escapeEffect Dropdown_defaults (Dropdown_init\<lparr>isOpen := True\<rparr>) closed_escape)
     (Dropdown_init\<lparr>isOpen := True\<rparr>) = (Dropdown_init, [])"
proof -
  have a: "esc_deps closed_escape
             \<noteq> Some (Dropdown_open Dropdown_defaults (Dropdown_init\<lparr>isOpen := True\<rparr>),
                      closeOnEscape Dropdown_defaults)"
    "Dropdown_open Dropdown_defaults (Dropdown_init\<lparr>isOpen := True\<rparr>)"
    by (simp_all add: closed_escape_def Dropdown_open_def Dropdown_defaults_def)
  have b: "esc_deps closed_escape
             \<noteq> Some (Dropdown_open (Dropdown_defaults\<lparr>closeOnEscape := False\<rparr>)
                        (Dropdown_init\<lparr>isOpen := True\<rparr>),
                      closeOnEscape (Dropdown_defaults\<lparr>closeOnEscape := False\<rparr>))"
    "Dropdown_open (Dropdown_defaults\<lparr>closeOnEscape := False\<rparr>) (Dropdown_init\<lparr>isOpen := True\<rparr>)"
    by (simp_all add: closed_escape_def Dropdown_open_def Dropdown_defaults_def)
  have r: "closeOnEscape Dropdown_defaults" "controlledOpen Dropdown_defaults = None"
    "\<not> onOpenChange Dropdown_defaults"
    by (simp_all add: Dropdown_defaults_def)
  from C7_escape_closes_when_enabled [OF a a(2) refl refl refl]
       C7_escape_closes_when_enabled [OF b b(2) refl refl refl]
  show ?thesis using r by (simp add: Dropdown_init_def)
qed

text \<open>
  Claim C10. In \<^verbatim>\<open>Tooltip\<close> the \<^verbatim>\<open>disabled\<close> flag is tested by \<^verbatim>\<open>showTooltip\<close> only: with
  \<^verbatim>\<open>trigger = 'click'\<close> a click toggles the visibility of a disabled tooltip in every
  state, while with \<^verbatim>\<open>trigger = 'hover'\<close> or \<^verbatim>\<open>'focus'\<close> the enter or focus event leaves the
  state of a disabled tooltip as it is (hidden stays hidden, and no timer is started).
\<close>

theorem C10_disabled_blocks_hover_focus_only:
  "Tooltip_step (p\<lparr>trigger := Click, disabled := True\<rparr>) ClickT s
     = s\<lparr>isVisible := \<not> isVisible s\<rparr>
   \<and> Tooltip_step (p\<lparr>trigger := Hover, disabled := True\<rparr>) MouseEnter s = s
   \<and> Tooltip_step (p\<lparr>trigger := Focus, disabled := True\<rparr>) FocusT s = s"
  by (simp add: Tooltip_step_def handleClick_def handleMouseEnter_def handleFocus_def
        showTooltip_def)

section \<open>The stored position before a measurement\<close>

text \<open>No handler writes the position; only \<^verbatim>\<open>updatePosition\<close> does.\<close>

lemma Dropdown_handleClose_position: "position (fst (Dropdown_handleClose p s)) = position s"
  by (simp add: Dropdown_handleClose_def)

lemma Dropdown_dispatch_position: "position (fst (Dropdown_dispatch p b ev s)) = position s"
  by (cases ev)
     (simp_all add: Dropdown_dispatch_def Dropdown_handleToggle_def Dropdown_handleBlur_def
        Dropdown_handleClose_position)

lemma Dropdown_keydown_position: "position (fst (Dropdown_keydown key e s)) = position s"
  by (cases "esc_listener e")
     (auto simp: Dropdown_keydown_def Dropdown_handleEscape_def Dropdown_handleClose_position)

lemma Dropdown_run_position: "position (fst (Dropdown_run p b evs s)) = position s"
proof (induction evs arbitrary: s)
  case Nil
  show ?case by simp
next
  case (Cons e es)
  obtain s1 out1 where d: "Dropdown_dispatch p b e s = (s1, out1)"
    by (cases "Dropdown_dispatch p b e s")
  obtain s2 out2 where r: "Dropdown_run p b es s1 = (s2, out2)"
    by (cases "Dropdown_run p b es s1")
  have "position s2 = position s1"
    using Cons.IH [of s1] r by simp
  moreover have "position s1 = position s"
    using Dropdown_dispatch_position [of p b e s] d by simp
  ultimately show ?case using d r by simp
qed

lemma hideTooltip_pos: "tooltipPos (hideTooltip s) = tooltipPos s"
  by (simp add: hideTooltip_def clearTimeout_def split: option.split)

lemma showTooltip_pos: "tooltipPos (showTooltip p s) = tooltipPos s"
  by (simp add: showTooltip_def setTimeout_def Let_def)

lemma Tooltip_step_pos: "tooltipPos (Tooltip_step p ev s) = tooltipPos s"
  by (cases ev)
     (simp_all add: Tooltip_step_def handleMouseEnter_def handleMouseLeave_def handleClick_def
        handleFocus_def handleBlur_def advance_def Let_def hideTooltip_pos showTooltip_pos)

lemma Tooltip_run_pos: "tooltipPos (Tooltip_run p evs s) = tooltipPos s"
  by (induction evs arbitrary: s) (simp_all add: Tooltip_step_pos)

text \<open>
  The first frame after opening: a freshly mounted dropdown whose trigger is clicked, and
  a freshly mounted tooltip (without a \<^verbatim>\<open>style\<close> prop) whose hover delay has passed, render
  the floating element at \<^verbatim>\<open>{top: 0, left: 0}\<close>.
\<close>

theorem C2_first_frame_counterexample:
  "Dropdown_render Dropdown_defaults
     (fst (Dropdown_dispatch Dropdown_defaults False (ClickEv InTrigger) Dropdown_init))
     = Some \<lparr>pos_top = 0, pos_left = 0\<rparr>
   \<and> Tooltip_render False
       (Tooltip_run (Tooltip_defaults ''tip'') [MouseEnter, Wait 200] Tooltip_init)
     = Some (StoredPosition \<lparr>pos_top = 0, pos_left = 0\<rparr>)"
  by (simp add: Dropdown_render_def Dropdown_dispatch_def Dropdown_handleToggle_def
        Dropdown_defaults_def Dropdown_init_def Dropdown_open_def isControlled_def
        Tooltip_render_def Tooltip_defaults_def Tooltip_init_def Tooltip_step_def
        handleMouseEnter_def showTooltip_def setTimeout_def advance_def Let_def)

text \<open>
  Claim C2, as the code has it. The stored position is never \<^verbatim>\<open>null\<close>: it is
  \<^verbatim>\<open>{top: 0, left: 0}\<close> at construction, and no click, blur, mousedown or keydown of a
  dropdown and no pointer, click or focus event or timer of a tooltip changes it. The
  floating element is rendered whenever the overlay is open, without waiting for a
  measurement: by \<^verbatim>\<open>Dropdown\<close> at the stored position, by \<^verbatim>\<open>Tooltip\<close> at the stored position
  unless the caller passes a \<^verbatim>\<open>style\<close> prop, which replaces the style. So the first frame
  after the overlay has opened (by a click on the trigger of a closed uncontrolled
  dropdown, by the \<^verbatim>\<open>open\<close> prop, by a click, or by a hover without delay or held for the
  delay of 200 ms) shows the floating element at the position that was stored before:
  the default one as long as nothing has been measured, the one of an earlier measurement
  afterwards.
\<close>

theorem C2_stored_position_rendered_unmeasured:
  "position Dropdown_init = \<lparr>pos_top = 0, pos_left = 0\<rparr>
   \<and> tooltipPos Tooltip_init = \<lparr>pos_top = 0, pos_left = 0\<rparr>
   \<and> position (fst (Dropdown_run p b evs s)) = position s
   \<and> position (fst (Dropdown_keydown key e s)) = position s
   \<and> tooltipPos (Tooltip_run q tevs t) = tooltipPos t
   \<and> Dropdown_render p (fst (Dropdown_run p b evs s))
       = (if Dropdown_open p (fst (Dropdown_run p b evs s)) then Some (position s) else None)
   \<and> Dropdown_render p (fst (Dropdown_keydown key e s))
       = (if Dropdown_open p (fst (Dropdown_keydown key e s)) then Some (position s) else None)
   \<and> Tooltip_render False (Tooltip_run q tevs t)
       = (if isVisible (Tooltip_run q tevs t) then Some (StoredPosition (tooltipPos t)) else None)
   \<and> Tooltip_render True (Tooltip_run q tevs t)
       = (if isVisible (Tooltip_run q tevs t) then Some CallerStyle else None)
   \<and> Dropdown_render (p\<lparr>controlledOpen := None\<rparr>)
       (fst (Dropdown_dispatch (p\<lparr>controlledOpen := None\<rparr>) b (ClickEv InTrigger)
              (s\<lparr>isOpen := False\<rparr>)))
       = Some (position s)
   \<and> Dropdown_render (p\<lparr>controlledOpen := Some True\<rparr>) s = Some (position s)
   \<and> Tooltip_render False (Tooltip_step (q\<lparr>trigger := Click\<rparr>) ClickT (t\<lparr>isVisible := False\<rparr>))
       = Some (StoredPosition (tooltipPos t))
   \<and> Tooltip_render False
       (Tooltip_step (q\<lparr>trigger := Hover, disabled := False, delay := 0\<rparr>) MouseEnter t)
       = Some (StoredPosition (tooltipPos t))
   \<and> Tooltip_render False
       (Tooltip_run (q\<lparr>trigger := Hover, disabled := False, delay := 200\<rparr>)
          [MouseEnter, Wait 200] t)
       = Some (StoredPosition (tooltipPos t))"
proof -
  have w: "isVisible (Tooltip_run (q\<lparr>trigger := Hover, disabled := False, delay := 200\<rparr>)
          [MouseEnter, Wait 200] t)"
    by (simp add: Tooltip_step_def handleMouseEnter_def showTooltip_def setTimeout_def
          advance_def Let_def)
  have f: "Dropdown_render (p\<lparr>controlledOpen := None\<rparr>)
       (fst (Dropdown_dispatch (p\<lparr>controlledOpen := None\<rparr>) b (ClickEv InTrigger)
              (s\<lparr>isOpen := False\<rparr>)))
       = Some (position s)"
    by (simp add: Dropdown_render_def Dropdown_dispatch_def Dropdown_handleToggle_def
          Dropdown_open_def isControlled_def)
  have g: "Tooltip_render False
       (Tooltip_step (q\<lparr>trigger := Click\<rparr>) ClickT (t\<lparr>isVisible := False\<rparr>))
       = Some (StoredPosition (tooltipPos t))"
    "Tooltip_render False
       (Tooltip_step (q\<lparr>trigger := Hover, disabled := False, delay := 0\<rparr>) MouseEnter t)
       = Some (StoredPosition (tooltipPos t))"
    by (simp_all add: Tooltip_render_def Tooltip_step_def handleClick_def handleMouseEnter_def
          showTooltip_def)
  have h: "Tooltip_render False
       (Tooltip_run (q\<lparr>trigger := Hover, disabled := False, delay := 200\<rparr>)
          [MouseEnter, Wait 200] t)
       = Some (StoredPosition (tooltipPos t))"
    using w Tooltip_run_pos [of "q\<lparr>trigger := Hover, disabled := False, delay := 200\<rparr>"
        "[MouseEnter, Wait 200]" t]
    by (simp only: Tooltip_render_def) simp
  show ?thesis
    using f g h
    by (simp add: Dropdown_run_position Dropdown_keydown_position Tooltip_run_pos
          Dropdown_render_def Tooltip_render_def)
       (simp add: Dropdown_init_def Tooltip_init_def Dropdown_open_def)
qed

section \<open>Clicks outside\<close>

text \<open>
  An open dropdown with default props stays open when the mouse is pressed and released
  outside it; with \<^verbatim>\<open>closeOnBlur\<close> off it stays open even when that click takes the focus
  away.
\<close>

theorem C3_no_click_outside_counterexample:
  "Dropdown_open Dropdown_defaults (Dropdown_init\<lparr>isOpen := True\<rparr>)
   \<and> Dropdown_open Dropdown_defaults
       (fst (Dropdown_run Dropdown_defaults False [MouseDownEv Outside, ClickEv Outside]
              (Dropdown_init\<lparr>isOpen := True\<rparr>)))
   \<and> Dropdown_open (Dropdown_defaults\<lparr>closeOnBlur := False\<rparr>)
       (fst (Dropdown_run (Dropdown_defaults\<lparr>closeOnBlur := False\<rparr>) False
              [MouseDownEv Outside, BlurEv None, ClickEv Outside]
              (Dropdown_init\<lparr>isOpen := True\<rparr>)))"
  by (simp add: Dropdown_open_def Dropdown_defaults_def Dropdown_init_def Dropdown_dispatch_def
        Dropdown_handleBlur_def)

text \<open>
  Claim C3, as the code has it. An open \<^verbatim>\<open>DatePicker\<close> becomes closed on a \<^verbatim>\<open>mousedown\<close>
  whose target is outside its floating calendar (outside the component, elsewhere in its
  root, or on its trigger) and stays open on one inside the calendar. \<^verbatim>\<open>Dropdown\<close> and
  \<^verbatim>\<open>Menu\<close> have no listener for clicks outside: a \<^verbatim>\<open>mousedown\<close> anywhere and a click outside
  both the trigger and the floating element leave their state unchanged and call nothing.
  From outside they close through the blur handler of the root element only. A blur
  changes nothing when the caller has passed an \<^verbatim>\<open>onBlur\<close> of its own, which replaces
  \<^verbatim>\<open>handleBlur\<close>, or when \<^verbatim>\<open>closeOnBlur\<close> is \<^verbatim>\<open>false\<close>. Otherwise a blur whose
  \<^verbatim>\<open>relatedTarget\<close> is \<^verbatim>\<open>null\<close> or outside the root runs \<^verbatim>\<open>handleClose\<close>, which closes an
  uncontrolled overlay, and a blur towards an element inside the root changes nothing.
\<close>

theorem C3_click_outside_paths:
  "DatePicker_mousedown Outside (s\<lparr>dp_isOpen := True\<rparr>) = s\<lparr>dp_isOpen := False\<rparr>
   \<and> DatePicker_mousedown InRoot (s\<lparr>dp_isOpen := True\<rparr>) = s\<lparr>dp_isOpen := False\<rparr>
   \<and> DatePicker_mousedown InTrigger (s\<lparr>dp_isOpen := True\<rparr>) = s\<lparr>dp_isOpen := False\<rparr>
   \<and> DatePicker_mousedown InContent (s\<lparr>dp_isOpen := True\<rparr>) = s\<lparr>dp_isOpen := True\<rparr>
   \<and> Dropdown_dispatch p b (MouseDownEv n) t = (t, [])
   \<and> Dropdown_dispatch p b (ClickEv Outside) t = (t, [])
   \<and> Dropdown_dispatch p b (ClickEv InRoot) t = (t, [])
   \<and> Menu_dispatch p b (MouseDownEv n) t = (t, [])
   \<and> Menu_dispatch p b (ClickEv Outside) t = (t, [])
   \<and> Menu_dispatch p b (ClickEv InRoot) t = (t, [])
   \<and> Dropdown_dispatch p True (BlurEv r) t = (t, [])
   \<and> Menu_dispatch p True (BlurEv r) t = (t, [])
   \<and> Dropdown_dispatch (p\<lparr>closeOnBlur := False\<rparr>) False (BlurEv r) t = (t, [])
   \<and> Menu_dispatch (p\<lparr>closeOnBlur := False\<rparr>) False (BlurEv r) t = (t, [])
   \<and> Dropdown_dispatch (p\<lparr>closeOnBlur := True\<rparr>) False (BlurEv None) t
       = Dropdown_handleClose p t
   \<and> Dropdown_dispatch (p\<lparr>closeOnBlur := True\<rparr>) False (BlurEv (Some Outside)) t
       = Dropdown_handleClose p t
   \<and> Dropdown_dispatch (p\<lparr>closeOnBlur := True\<rparr>) False (BlurEv (Some InTrigger)) t = (t, [])
   \<and> Dropdown_dispatch (p\<lparr>closeOnBlur := True\<rparr>) False (BlurEv (Some InContent)) t = (t, [])
   \<and> Dropdown_dispatch (p\<lparr>closeOnBlur := True\<rparr>) False (BlurEv (Some InRoot)) t = (t, [])
   \<and> Menu_dispatch (p\<lparr>closeOnBlur := True\<rparr>) False (BlurEv None) t = Menu_handleClose p t
   \<and> Menu_dispatch (p\<lparr>closeOnBlur := True\<rparr>) False (BlurEv (Some Outside)) t
       = Menu_handleClose p t
   \<and> Menu_dispatch (p\<lparr>closeOnBlur := True\<rparr>) False (BlurEv (Some InTrigger)) t = (t, [])
   \<and> Menu_dispatch (p\<lparr>closeOnBlur := True\<rparr>) False (BlurEv (Some InContent)) t = (t, [])
   \<and> Menu_dispatch (p\<lparr>closeOnBlur := True\<rparr>) False (BlurEv (Some InRoot)) t = (t, [])
   \<and> Dropdown_handleClose (p\<lparr>controlledOpen := None\<rparr>) t
       = (t\<lparr>isOpen := False\<rparr>, if onOpenChange p then [False] else [])
   \<and> Menu_handleClose (p\<lparr>controlledOpen := None\<rparr>) t
       = (t\<lparr>isOpen := False\<rparr>, if onOpenChange p then [False] else [])"
  by (simp add: DatePicker_mousedown_def DatePicker_handleClickOutside_def Dropdown_dispatch_def
        Menu_dispatch_def Dropdown_handleBlur_def Menu_handleBlur_def rootContains_def
        Dropdown_handleClose_def Menu_handleClose_def isControlled_def call_onOpenChange_def)

section \<open>Window listeners over an open/close cycle\<close>

text \<open>\<^verbatim>\<open>updatePosition\<close> returns normally on every input and keeps the open flag.\<close>

lemma Dropdown_updatePosition_returns:
  "\<exists>s1. Dropdown_updatePosition p d s = Inr s1 \<and> isOpen s1 = isOpen s"
  by (cases "triggerRef d"; cases "contentRef d")
     (simp_all add: Dropdown_updatePosition_def getBoundingClientRect_def Let_def
        split: prod.split)

lemma Tooltip_updatePosition_returns:
  "\<exists>s1. Tooltip_updatePosition p d s = Inr s1 \<and> isVisible s1 = isVisible s"
  by (cases "triggerRef d"; cases "contentRef d")
     (simp_all add: Tooltip_updatePosition_def getBoundingClientRect_def Let_def
        split: prod.split)

text \<open>
  Two distinct listeners that are not yet registered are appended by their
  \<^verbatim>\<open>addEventListener\<close> calls and taken away again by the matching \<^verbatim>\<open>removeEventListener\<close>
  calls.
\<close>

lemma add_then_remove_pair:
  assumes "a \<notin> set w" "b \<notin> set w" "a \<noteq> b"
  shows "applyOps [AddListener a, AddListener b] w = w @ [a, b]"
    and "applyOps [RemoveListener a, RemoveListener b] (w @ [a, b]) = w"
  using assms by (simp_all add: applyOps_def addEventListener_def removeEventListener_def
      )

lemma fresh_not_member:
  assumes "\<forall>l \<in> set w. fst (snd l) \<noteq> fn"
  shows "(n, fn, c) \<notin> set w"
  using assms by force

text \<open>
  One cycle of a dropdown: the commit of the render in which \<^verbatim>\<open>open\<close> has become true, any
  number of renders \<open>k\<close> and any state \<open>s'\<close> later the commit of a render in which \<^verbatim>\<open>open\<close>
  is false, or the unmount.
\<close>

lemma Dropdown_cycle_listeners:
  assumes closed: "m_cleanup m = []" "m_lastDeps m \<noteq> Some True"
    and fresh: "\<forall>l \<in> set (m_window m). fst (snd l) \<noteq> (m_inst m, m_renders m)"
    and opens: "Dropdown_open p (m_state m)"
    and closes: "\<not> Dropdown_open p' s'"
  shows "\<exists>m1 m2. Dropdown_commit p d m = Inr m1
           \<and> m_window m1 = m_window m @ [(''resize'', (m_inst m, m_renders m), False),
                                          (''scroll'', (m_inst m, m_renders m), False)]
           \<and> m_cleanup m1 = [RemoveListener (''resize'', (m_inst m, m_renders m), False),
                              RemoveListener (''scroll'', (m_inst m, m_renders m), False)]
           \<and> Dropdown_commit p' d' (m1\<lparr>m_state := s', m_renders := k\<rparr>) = Inr m2
           \<and> m_window m2 = m_window m \<and> m_cleanup m2 = []
           \<and> m_window (unmount (m1\<lparr>m_state := s', m_renders := k\<rparr>)) = m_window m"
proof -
  let ?fn = "(m_inst m, m_renders m)"
  let ?r = "(''resize'', ?fn, False)" and ?sc = "(''scroll'', ?fn, False)"
  obtain s1 where s1: "Dropdown_updatePosition p d (m_state m) = Inr s1"
    using Dropdown_updatePosition_returns by blast
  have nr: "?r \<notin> set (m_window m)" and ns: "?sc \<notin> set (m_window m)"
    using fresh by (rule fresh_not_member)+
  have ne: "?r \<noteq> ?sc" by simp
  define m1 where "m1 = m\<lparr>m_state := s1, m_window := m_window m @ [?r, ?sc],
      m_lastDeps := Some True, m_cleanup := [RemoveListener ?r, RemoveListener ?sc],
      m_renders := Suc (m_renders m)\<rparr>"
  have c1: "Dropdown_commit p d m = Inr m1"
    using closed opens s1 add_then_remove_pair(1) [OF nr ns ne]
    by (simp add: Dropdown_commit_def Dropdown_positionEffect_def m1_def applyOps_def)
  define m2 where "m2 = m1\<lparr>m_state := s', m_window := m_window m, m_lastDeps := Some False,
      m_cleanup := [], m_renders := Suc k\<rparr>"
  have restore: "applyOps (m_cleanup m1) (m_window m1) = m_window m"
    using add_then_remove_pair(2) [OF nr ns ne] by (simp add: m1_def)
  have c2: "Dropdown_commit p' d' (m1\<lparr>m_state := s', m_renders := k\<rparr>) = Inr m2"
    using closes restore
    by (simp add: Dropdown_commit_def Dropdown_positionEffect_def m2_def applyOps_def)
       (simp add: m1_def)
  have u: "m_window (unmount (m1\<lparr>m_state := s', m_renders := k\<rparr>)) = m_window m"
    using restore by (simp add: unmount_def)
  show ?thesis
    using c1 c2 u by (intro exI [of _ m1] exI [of _ m2]) (simp add: m1_def m2_def)
qed

lemma Tooltip_cycle_listeners:
  assumes closed: "m_cleanup n = []" "m_lastDeps n \<noteq> Some (Tooltip_deps q (m_state n))"
    and fresh: "\<forall>l \<in> set (m_window n). fst (snd l) \<noteq> (m_inst n, m_renders n)"
    and opens: "isVisible (m_state n)"
    and closes: "\<not> isVisible t'"
  shows "\<exists>n1 n2. Tooltip_commit q d n = Inr n1
           \<and> m_window n1 = m_window n @ [(''resize'', (m_inst n, m_renders n), False),
                                          (''scroll'', (m_inst n, m_renders n), True)]
           \<and> m_cleanup n1 = [RemoveListener (''resize'', (m_inst n, m_renders n), False),
                              RemoveListener (''scroll'', (m_inst n, m_renders n), True)]
           \<and> Tooltip_commit q' d' (n1\<lparr>m_state := t', m_renders := k\<rparr>) = Inr n2
           \<and> m_window n2 = m_window n \<and> m_cleanup n2 = []
           \<and> m_window (unmount (n1\<lparr>m_state := t', m_renders := k\<rparr>)) = m_window n"
proof -
  let ?fn = "(m_inst n, m_renders n)"
  let ?r = "(''resize'', ?fn, False)" and ?sc = "(''scroll'', ?fn, True)"
  obtain s1 where s1: "Tooltip_updatePosition q d (m_state n) = Inr s1"
      and v1: "isVisible s1 = isVisible (m_state n)"
    using Tooltip_updatePosition_returns by blast
  have nr: "?r \<notin> set (m_window n)" and ns: "?sc \<notin> set (m_window n)"
    using fresh by (rule fresh_not_member)+
  have ne: "?r \<noteq> ?sc" by simp
  define n1 where "n1 = n\<lparr>m_state := s1, m_window := m_window n @ [?r, ?sc],
      m_lastDeps := Some (Tooltip_deps q (m_state n)),
      m_cleanup := [RemoveListener ?r, RemoveListener ?sc],
      m_renders := Suc (m_renders n)\<rparr>"
  have c1: "Tooltip_commit q d n = Inr n1"
    using closed opens s1 add_then_remove_pair(1) [OF nr ns ne]
    by (simp add: Tooltip_commit_def Tooltip_positionEffect_def n1_def applyOps_def)
  define n2 where "n2 = n1\<lparr>m_state := t', m_window := m_window n,
      m_lastDeps := Some (Tooltip_deps q' t'), m_cleanup := [], m_renders := Suc k\<rparr>"
  have restore: "applyOps (m_cleanup n1) (m_window n1) = m_window n"
    using add_then_remove_pair(2) [OF nr ns ne] by (simp add: n1_def)
  have changed: "Tooltip_deps q (m_state n) \<noteq> Tooltip_deps q' t'"
    using opens closes by (auto simp: Tooltip_deps_def)
  have c2: "Tooltip_commit q' d' (n1\<lparr>m_state := t', m_renders := k\<rparr>) = Inr n2"
    using closes restore changed
    by (simp add: Tooltip_commit_def Tooltip_positionEffect_def n2_def n1_def applyOps_def)
  have u: "m_window (unmount (n1\<lparr>m_state := t', m_renders := k\<rparr>)) = m_window n"
    using restore by (simp add: unmount_def)
  show ?thesis
    using c1 c2 u by (intro exI [of _ n1] exI [of _ n2]) (simp add: n1_def n2_def)
qed

text \<open>
  Claim C6. Take a dropdown and a tooltip that hold no listener (no cleanup pending) and
  whose current render is the one in which they have become open; the closure
  \<^verbatim>\<open>updatePosition\<close> of that render is new, so the window does not hold it. The opening
  commit registers exactly a \<^verbatim>\<open>resize\<close> and a \<^verbatim>\<open>scroll\<close> listener with that closure, the
  cleanup it leaves removes exactly these two (same event name, same closure, same capture
  flag: \<^verbatim>\<open>false\<close> in the dropdown, \<^verbatim>\<open>true\<close> for the scroll listener of the tooltip), and
  after the commit of a render in which the overlay is closed, or after the unmount, the
  listeners of the window are the ones from before the cycle.
\<close>

theorem C6_listeners_paired:
  assumes "m_cleanup m = []" "m_lastDeps m \<noteq> Some True"
    and "\<forall>l \<in> set (m_window m). fst (snd l) \<noteq> (m_inst m, m_renders m)"
    and "Dropdown_open p (m_state m)"
    and "\<not> Dropdown_open p' s'"
    and "m_cleanup n = []" "m_lastDeps n \<noteq> Some (Tooltip_deps q (m_state n))"
    and "\<forall>l \<in> set (m_window n). fst (snd l) \<noteq> (m_inst n, m_renders n)"
    and "isVisible (m_state n)"
    and "\<not> isVisible t'"
  shows "(\<exists>m1 m2. Dropdown_commit p d m = Inr m1
           \<and> m_window m1 = m_window m @ [(''resize'', (m_inst m, m_renders m), False),
                                          (''scroll'', (m_inst m, m_renders m), False)]
           \<and> m_cleanup m1 = [RemoveListener (''resize'', (m_inst m, m_renders m), False),
                              RemoveListener (''scroll'', (m_inst m, m_renders m), False)]
           \<and> Dropdown_commit p' d' (m1\<lparr>m_state := s', m_renders := k\<rparr>) = Inr m2
           \<and> m_window m2 = m_window m \<and> m_cleanup m2 = []
           \<and> m_window (unmount (m1\<lparr>m_state := s', m_renders := k\<rparr>)) = m_window m)
       \<and> (\<exists>n1 n2. Tooltip_commit q d n = Inr n1
           \<and> m_window n1 = m_window n @ [(''resize'', (m_inst n, m_renders n), False),
                                          (''scroll'', (m_inst n, m_renders n), True)]
           \<and> m_cleanup n1 = [RemoveListener (''resize'', (m_inst n, m_renders n), False),
                              RemoveListener (''scroll'', (m_inst n, m_renders n), True)]
           \<and> Tooltip_commit q' d' (n1\<lparr>m_state := t', m_renders := k\<rparr>) = Inr n2
           \<and> m_window n2 = m_window n \<and> m_cleanup n2 = []
           \<and> m_window (unmount (n1\<lparr>m_state := t', m_renders := k\<rparr>)) = m_window n)"
  using Dropdown_cycle_listeners [OF assms(1-5)] Tooltip_cycle_listeners [OF assms(6-10)]
  by (rule conjI)

text \<open>
  The cycle on a window that already holds the listeners of another component.
\<close>

theorem C6_listeners_paired_witness:
  "(\<exists>m1 m2. Dropdown_commit Dropdown_defaults (unscrolled (domRect 100 100 50 20) (domRect 0 0 80 40)) mounted_Dropdown = Inr m1
      \<and> m_window m1 = busy_window @ [(''resize'', (1, 3), False), (''scroll'', (1, 3), False)]
      \<and> Dropdown_commit Dropdown_defaults (unscrolled (domRect 100 100 50 20) (domRect 0 0 80 40))
           (m1\<lparr>m_state := Dropdown_init, m_renders := 4\<rparr>) = Inr m2
      \<and> m_window m2 = busy_window
      \<and> m_window (unmount (m1\<lparr>m_state := Dropdown_init, m_renders := 4\<rparr>)) = busy_window)
   \<and> (\<exists>n1 n2. Tooltip_commit (Tooltip_defaults ''tip'') (unscrolled (domRect 100 100 50 20) (domRect 0 0 80 40)) mounted_Tooltip = Inr n1
      \<and> m_window n1 = busy_window @ [(''resize'', (2, 5), False), (''scroll'', (2, 5), True)]
      \<and> Tooltip_commit (Tooltip_defaults ''tip'') (unscrolled (domRect 100 100 50 20) (domRect 0 0 80 40))
           (n1\<lparr>m_state := Tooltip_init, m_renders := 4\<rparr>) = Inr n2
      \<and> m_window n2 = busy_window
      \<and> m_window (unmount (n1\<lparr>m_state := Tooltip_init, m_renders := 4\<rparr>)) = busy_window)"
proof -
  have a: "m_cleanup mounted_Dropdown = []" "m_lastDeps mounted_Dropdown \<noteq> Some True"
    "\<forall>l \<in> set (m_window mounted_Dropdown).
        fst (snd l) \<noteq> (m_inst mounted_Dropdown, m_renders mounted_Dropdown)"
    "Dropdown_open Dropdown_defaults (m_state mounted_Dropdown)"
    "\<not> Dropdown_open Dropdown_defaults Dropdown_init"
    by (simp_all add: mounted_Dropdown_def busy_window_def Dropdown_open_def
          Dropdown_defaults_def Dropdown_init_def)
  have b: "m_cleanup mounted_Tooltip = []"
    "m_lastDeps mounted_Tooltip \<noteq>
       Some (Tooltip_deps (Tooltip_defaults ''tip'') (m_state mounted_Tooltip))"
    "\<forall>l \<in> set (m_window mounted_Tooltip).
        fst (snd l) \<noteq> (m_inst mounted_Tooltip, m_renders mounted_Tooltip)"
    "isVisible (m_state mounted_Tooltip)"
    "\<not> isVisible Tooltip_init"
    by (simp_all add: mounted_Tooltip_def busy_window_def Tooltip_deps_def Tooltip_init_def)
  show ?thesis
    using C6_listeners_paired [OF a b, where
        d = "unscrolled (domRect 100 100 50 20) (domRect 0 0 80 40)"
        and d' = "unscrolled (domRect 100 100 50 20) (domRect 0 0 80 40)" and k = 4
        and q' = "Tooltip_defaults ''tip''"]
    by (simp add: mounted_Dropdown_def mounted_Tooltip_def) blast
qed

section \<open>The props behind the window listener\<close>


section \<open>Hover with a delay\<close>

text \<open>
  Waiting in two steps is waiting once, so the moments during a wait are the ends of the
  shorter waits.
\<close>

lemma advance_advance: "advance b (advance a s) = advance (a + b) s"
proof -
  have f1: "filter (\<lambda>t. \<not> snd t \<le> clock s + a + b)
              (filter (\<lambda>t. \<not> snd t \<le> clock s + a) (timers s))
        = filter (\<lambda>t. \<not> snd t \<le> clock s + (a + b)) (timers s)"
    by (auto intro: filter_cong)
  have f2: "(filter (\<lambda>t. snd t \<le> clock s + a + b)
               (filter (\<lambda>t. \<not> snd t \<le> clock s + a) (timers s)) = []
             \<and> filter (\<lambda>t. snd t \<le> clock s + a) (timers s) = [])
        = (filter (\<lambda>t. snd t \<le> clock s + (a + b)) (timers s) = [])"
    by (auto simp: filter_empty_conv)
  show ?thesis
    using f1 f2 by (auto simp: advance_def Let_def add.assoc)
qed

text \<open>The invariant holds at the start and is kept by every event of a pointer trace.\<close>

lemma hover_inv_init: "hover_inv p None Tooltip_init"
  by (simp add: hover_inv_def Tooltip_init_def)

lemma hover_inv_enter:
  assumes "trigger p = Hover" "\<not> disabled p" "delay p \<le> 2147483647" "hover_inv p None s"
  shows "hover_inv p (Some 0) (handleMouseEnter p s)"
proof -
  have "\<not> 2147483647 < nat (delay p)"
    using assms(3) by linarith
  then show ?thesis
    using assms
    by (simp add: hover_inv_def handleMouseEnter_def showTooltip_def setTimeout_def Let_def)
qed

lemma hover_inv_leave:
  assumes "trigger p = Hover" "hover_inv p (Some t) s"
  shows "hover_inv p None (handleMouseLeave p s)"
  using assms
  by (auto simp: hover_inv_def handleMouseLeave_def hideTooltip_def clearTimeout_def Let_def
      split: if_splits option.splits)

lemma hover_inv_wait:
  assumes "hover_inv p h s"
  shows "hover_inv p (map_option (\<lambda>t. t + ms) h) (advance ms s)"
proof (cases h)
  case None
  then show ?thesis using assms by (simp add: hover_inv_def advance_def Let_def)
next
  case (Some t)
  show ?thesis
  proof (cases "delay p \<le> int t")
    case True
    then show ?thesis using assms Some by (simp add: hover_inv_def advance_def Let_def)
  next
    case False
    then show ?thesis using assms Some
      by (auto simp: hover_inv_def advance_def Let_def)
  qed
qed

lemma hover_inv_other:
  assumes "trigger p = Hover" "hover_inv p h s" "ev = ClickT \<or> ev = FocusT \<or> ev = BlurT"
  shows "Tooltip_step p ev s = s"
  using assms by (auto simp: Tooltip_step_def handleClick_def handleFocus_def handleBlur_def)

lemma hover_inv_step:
  assumes "trigger p = Hover" "\<not> disabled p" "delay p \<le> 2147483647"
    and "hover_inv p h s" "pointer_ok h ev"
  shows "hover_inv p (hover_next h ev) (Tooltip_step p ev s)"
proof (cases ev)
  case MouseEnter
  then show ?thesis using assms hover_inv_enter [of p s] by (simp add: Tooltip_step_def)
next
  case MouseLeave
  then obtain t where "h = Some t" using assms(5) by auto
  then show ?thesis using assms MouseLeave hover_inv_leave [of p t s] by (simp add: Tooltip_step_def)
next
  case (Wait ms)
  then show ?thesis using assms hover_inv_wait [of p h s ms] by (simp add: Tooltip_step_def)
next
  case ClickT
  then show ?thesis using assms hover_inv_other [of p h s ev] by simp
next
  case FocusT
  then show ?thesis using assms hover_inv_other [of p h s ev] by simp
next
  case BlurT
  then show ?thesis using assms hover_inv_other [of p h s ev] by simp
qed

lemma hover_inv_run:
  assumes "trigger p = Hover" "\<not> disabled p" "delay p \<le> 2147483647"
  shows "hover_inv p h s \<Longrightarrow> pointer_trace h evs \<Longrightarrow>
         hover_inv p (hovered h evs) (Tooltip_run p evs s)"
proof (induction evs arbitrary: h s)
  case Nil
  then show ?case by simp
next
  case (Cons e es)
  have "hover_inv p (hover_next h e) (Tooltip_step p e s)"
    using assms Cons.prems hover_inv_step by simp
  then show ?case using Cons.IH Cons.prems by simp
qed

lemma hover_inv_visible:
  "hover_inv p h s \<Longrightarrow> isVisible s = (case h of None \<Rightarrow> False | Some t \<Rightarrow> delay p \<le> int t)"
  by (auto simp: hover_inv_def split: option.splits if_splits)

lemma hover_characterisation:
  assumes "trigger p = Hover" "\<not> disabled p" "delay p \<le> 2147483647"
    and "pointer_trace None evs"
  shows "isVisible (Tooltip_run p evs Tooltip_init) =
           (case hovered None evs of None \<Rightarrow> False | Some t \<Rightarrow> delay p \<le> int t)"
  using hover_inv_run [OF assms(1,2,3) hover_inv_init assms(4)] by (rule hover_inv_visible)

lemma hovered_append: "hovered h (xs @ ys) = hovered (hovered h xs) ys"
  by (induction xs arbitrary: h) simp_all

lemma pointer_trace_append:
  "pointer_trace h (xs @ ys) = (pointer_trace h xs \<and> pointer_trace (hovered h xs) ys)"
  by (induction xs arbitrary: h) auto

text \<open>
  On pointer traces the delay works as a debounce. Take a hover tooltip that is not
  disabled, with a delay the host keeps, after any pointer trace that ends with the
  pointer outside (the fresh tooltip included). If the pointer enters and leaves again
  after \<open>t1\<close> milliseconds, before the delay has passed, the tooltip is hidden at every
  moment up to the leave and stays hidden however long one waits afterwards. If the
  pointer enters and stays for \<open>t\<close> milliseconds, at least the delay, the tooltip is visible.
\<close>

lemma hover_debounce_on_pointer_traces:
  assumes hover: "trigger p = Hover" "\<not> disabled p" "delay p \<le> 2147483647"
    and before: "pointer_trace None evs" "hovered None evs = None"
    and early: "int t1 < delay p"
    and held: "delay p \<le> int t"
  shows "(\<forall>u\<le>t1. \<not> isVisible (Tooltip_run p (evs @ [MouseEnter, Wait u]) Tooltip_init))
         \<and> (\<forall>v. \<not> isVisible
                  (Tooltip_run p (evs @ [MouseEnter, Wait t1, MouseLeave, Wait v]) Tooltip_init))
         \<and> isVisible (Tooltip_run p (evs @ [MouseEnter, Wait t]) Tooltip_init)"
proof (intro conjI allI impI)
  fix u assume "u \<le> t1"
  then have "int u < delay p" using early by simp
  moreover have "pointer_trace None (evs @ [MouseEnter, Wait u])"
    using before by (simp add: pointer_trace_append)
  ultimately show "\<not> isVisible (Tooltip_run p (evs @ [MouseEnter, Wait u]) Tooltip_init)"
    using hover_characterisation [OF hover, of "evs @ [MouseEnter, Wait u]"] before
    by (simp add: hovered_append)
next
  fix v
  have "pointer_trace None (evs @ [MouseEnter, Wait t1, MouseLeave, Wait v])"
    using before by (simp add: pointer_trace_append)
  then show "\<not> isVisible
      (Tooltip_run p (evs @ [MouseEnter, Wait t1, MouseLeave, Wait v]) Tooltip_init)"
    using hover_characterisation [OF hover, of "evs @ [MouseEnter, Wait t1, MouseLeave, Wait v]"]
      before by (simp add: hovered_append)
next
  have "pointer_trace None (evs @ [MouseEnter, Wait t])"
    using before by (simp add: pointer_trace_append)
  then show "isVisible (Tooltip_run p (evs @ [MouseEnter, Wait t]) Tooltip_init)"
    using hover_characterisation [OF hover, of "evs @ [MouseEnter, Wait t]"] before held
    by (simp add: hovered_append)
qed

text \<open>
  The default delay of 200 ms: a leave after 100 ms, and a stay of 200 ms.
\<close>

lemma hover_debounce_default_delay:
  "\<not> isVisible (Tooltip_run (Tooltip_defaults ''tip'') [MouseEnter, Wait 100] Tooltip_init)
   \<and> \<not> isVisible (Tooltip_run (Tooltip_defaults ''tip'')
                      [MouseEnter, Wait 100, MouseLeave, Wait 500] Tooltip_init)
   \<and> isVisible (Tooltip_run (Tooltip_defaults ''tip'') [MouseEnter, Wait 200] Tooltip_init)"
proof -
  have h: "trigger (Tooltip_defaults ''tip'') = Hover" "\<not> disabled (Tooltip_defaults ''tip'')"
    "delay (Tooltip_defaults ''tip'') \<le> 2147483647"
    "pointer_trace None []" "hovered None [] = None"
    "int 100 < delay (Tooltip_defaults ''tip'')" "delay (Tooltip_defaults ''tip'') \<le> int 200"
    by (simp_all add: Tooltip_defaults_def)
  from hover_debounce_on_pointer_traces [OF h] show ?thesis by auto
qed

text \<open>
  Claim C4. The debounce is meant to hold for every sequence of events; the code misses
  the case of a second \<^verbatim>\<open>mouseenter\<close> that arrives with no \<^verbatim>\<open>mouseleave\<close> before it. With the
  default delay of 200 ms: the pointer enters, enters again after 50 ms and leaves 100 ms
  later, before either delay has passed. \<^verbatim>\<open>showTooltip\<close> has overwritten \<^verbatim>\<open>timeoutRef\<close>
  without clearing the first timer, \<^verbatim>\<open>hideTooltip\<close> clears the second only, and 50 ms after
  the leave the first timer makes the tooltip visible.
\<close>

theorem C4_second_enter_opens_after_leave:
  "\<not> isVisible (Tooltip_run (Tooltip_defaults ''tip'')
        [MouseEnter, Wait 50, MouseEnter, Wait 100, MouseLeave] Tooltip_init)
   \<and> isVisible (Tooltip_run (Tooltip_defaults ''tip'')
        [MouseEnter, Wait 50, MouseEnter, Wait 100, MouseLeave, Wait 50] Tooltip_init)
   \<and> Tooltip_run (Tooltip_defaults ''tip'')
        [MouseEnter, Wait 50, MouseEnter, Wait 100, MouseLeave, Wait 50] Tooltip_init
      = \<lparr>isVisible = True, tooltipPos = \<lparr>pos_top = 0, pos_left = 0\<rparr>, timeoutRef = None,
         timers = [], clock = 200, nextTimer = 2\<rparr>"
  by (simp add: Tooltip_defaults_def Tooltip_init_def Tooltip_step_def handleMouseEnter_def
        handleMouseLeave_def showTooltip_def hideTooltip_def setTimeout_def clearTimeout_def
        advance_def Let_def)

end
